theory Spec2Isabelle
  imports Main "HOL-Library.Word"
begin

unbundle bit_operations_syntax

section \<open>Data model\<close>

text \<open>
  The repository holds two near-identical C programs, \<^verbatim>\<open>pycclinux.c\<close> and
  \<^verbatim>\<open>bootandbuild.c\<close> (its non-Windows branch is the one modelled). Both are a single
  binary that either builds (\<^verbatim>\<open>--build\<close>: compile a script, copy the running binary,
  append the compiled payload and a 13-byte footer) or launches (find the footer at the end
  of the running binary, extract the payload to a scratch file, run it with the embedded
  Python runtime). Where the two files differ, the functions below take the variant as
  their first argument.

  Integers are modelled at their C widths on LP64: \<^verbatim>\<open>uint64_t\<close>, \<^verbatim>\<open>size_t\<close> and
  \<^verbatim>\<open>long\<close> are 64-bit words; a \<^verbatim>\<open>long\<close> is read through \<open>sint\<close>. Signed
  overflow, which C leaves undefined, wraps around in the model.
\<close>

type_synonym byte = "8 word"
type_synonym u64 = "64 word"
type_synonym long = "64 word"
type_synonym path = string

datatype variant = Pycclinux | Bootandbuild

text \<open>\<^verbatim>\<open>FOOTER_MAGIC = "PYBND"\<close>, \<^verbatim>\<open>FOOTER_MAGIC_LEN = 5\<close>, \<^verbatim>\<open>FOOTER_LEN = 5 + 8\<close>.\<close>

definition FOOTER_MAGIC :: "byte list" where
  "FOOTER_MAGIC = [0x50, 0x59, 0x42, 0x4E, 0x44]"

definition FOOTER_MAGIC_LEN :: nat where
  "FOOTER_MAGIC_LEN = 5"

definition FOOTER_LEN :: nat where
  "FOOTER_LEN = 5 + 8"

text \<open>
  Every \<^verbatim>\<open>return\<close> of a non-zero code in the two programs is a constructor of
  \<open>failure\<close>; \<open>exit_code\<close> gives the integer written at that return. A function that
  returns \<^verbatim>\<open>int\<close> in C returns \<open>failure option\<close> here, \<open>None\<close> for 0.
\<close>

datatype failure =
    SelfPathFailure
  | OpenSelfFailure
  | SeekEndFailure
  | TooSmall
  | FooterSeekFailure
  | FooterReadFailure
  | NoPayload
  | ZeroPayload
  | CorruptFooter
  | PayloadSeekFailure
  | ScratchCreateFailure
  | ScratchReopenFailure
  | ExecFailure
  | CompileSetupFailure
  | CompileFailure
  | AppendFailure
  | UsageError

fun exit_code :: "failure \<Rightarrow> int" where
  "exit_code SelfPathFailure = 1"
| "exit_code OpenSelfFailure = 2"
| "exit_code SeekEndFailure = 3"
| "exit_code TooSmall = 4"
| "exit_code FooterSeekFailure = 5"
| "exit_code FooterReadFailure = 6"
| "exit_code NoPayload = 7"
| "exit_code ZeroPayload = 8"
| "exit_code CorruptFooter = 9"
| "exit_code PayloadSeekFailure = 10"
| "exit_code ScratchCreateFailure = 11"
| "exit_code ScratchReopenFailure = 12"
| "exit_code ExecFailure = 13"
| "exit_code CompileSetupFailure = 1"
| "exit_code CompileFailure = 2"
| "exit_code AppendFailure = 1"
| "exit_code UsageError = 1"

definition status :: "failure option \<Rightarrow> int" where
  "status r = (case r of None \<Rightarrow> 0 | Some e \<Rightarrow> exit_code e)"

subsection \<open>The environment and the observable state\<close>

datatype seek_site = SeekEnd | SeekFooter | SeekPayload

datatype compile_outcome = Compiled "byte list" | CompileRaised | CompileSetupFailed

text \<open>
  The Python runtime is outside the program; these are the answers it can give.
  \<^item> \<open>ending\<close>: how a call into the runtime can fail to come back: the process exits
    there with a status (\<^verbatim>\<open>os._exit\<close>, or \<^verbatim>\<open>SystemExit\<close> reaching
    \<^verbatim>\<open>PyRun_SimpleString\<close>), it is killed there (a crash), or it runs there for ever.
  \<^item> \<open>py_outcome\<close>: what one attempt of the Python text of \<^verbatim>\<open>pycclinux.c\<close> does
    (\<^verbatim>\<open>marshal.loads\<close> of a slice, then \<^verbatim>\<open>exec\<close> of the result): it finishes, it raises
    an exception derived from \<^verbatim>\<open>Exception\<close>, it raises \<^verbatim>\<open>SystemExit\<close> carrying an exit
    status, it raises another exception not derived from \<^verbatim>\<open>Exception\<close>
    (\<^verbatim>\<open>KeyboardInterrupt\<close>), or it does not come back.
  \<^item> \<open>py_result\<close>: what a call of \<^verbatim>\<open>PyRun_SimpleString\<close> does: it returns an
    \<^verbatim>\<open>int\<close> (0, or -1 when an exception left the text), or it does not come back.
  \<^item> \<open>module_outcome\<close>: what \<^verbatim>\<open>PyImport_ExecCodeModule\<close> does: it returns a module or
    \<^verbatim>\<open>NULL\<close>, or it does not come back.
\<close>

datatype ending = ExitedWith int | Crashed | RunsForever

datatype py_outcome =
    Finished
  | RaisedException
  | RaisedSystemExit int
  | RaisedOther
  | NoReturn ending

datatype py_result = PyReturned int | PyNoReturn ending

datatype module_outcome = ModuleLoaded | ModuleFailed | ModuleNoReturn ending

text \<open>
  \<open>env\<close> is what the operating system and the Python runtime answer; the program cannot
  change it.
  \<^item> \<open>proc_self_exe\<close>: the target of \<^verbatim>\<open>readlink("/proc/self/exe")\<close>, \<open>None\<close> when the
    call fails;
  \<^item> \<open>tmpdir_var\<close>: \<^verbatim>\<open>getenv("TMPDIR")\<close>; \<open>pid\<close>: \<^verbatim>\<open>getpid()\<close>;
  \<^item> \<open>read_sound p = Some k\<close>: the medium holding \<open>p\<close> delivers only the bytes at offsets
    below \<open>k\<close> (a read error beyond), \<open>None\<close>: every byte can be read;
  \<^item> \<open>fseek_fails\<close>: whether the \<^verbatim>\<open>fseek\<close> at that place of the launcher fails;
  \<^item> \<open>create_fails p\<close>: \<^verbatim>\<open>fopen(p, "wb")\<close> fails; \<open>write_room p = Some r\<close>: the device
    accepts only \<open>r\<close> more bytes for \<open>p\<close> (a full disk), \<open>None\<close>: no limit;
  \<^item> \<open>remove_fails p\<close>: \<^verbatim>\<open>remove(p)\<close> fails;
  \<^item> \<open>py_compile script\<close>: what \<^verbatim>\<open>py_compile.compile(script, cfile, doraise=True)\<close> does:
    the bytes of the compiled file, an exception raised by the call, or a failure before
    the call (the import of \<^verbatim>\<open>py_compile\<close>);
  \<^item> \<open>py_exec data k\<close>: what the two statements \<^verbatim>\<open>code_obj = marshal.loads(data[k:])\<close>
    and \<^verbatim>\<open>exec(code_obj)\<close> do at the place of the Python text of \<^verbatim>\<open>pycclinux.c\<close> where
    \<open>k\<close> bytes are skipped, when the scratch file holds \<open>data\<close>. The text runs in the
    module \<^verbatim>\<open>__main__\<close>, where \<^verbatim>\<open>data\<close>, the whole file with its header, is a global
    that the executed code can read, and where an earlier attempt may have left changes; so
    the answer is a function of the whole file and of the place, not of the slice;
  \<^item> \<open>py_run_text\<close>: what \<^verbatim>\<open>PyRun_SimpleString\<close> does with any other text (the text of
    \<^verbatim>\<open>pycclinux.c\<close> cut short, or with a name that changes its meaning);
  \<^item> \<open>py_module_exec\<close>: what \<^verbatim>\<open>PyImport_ExecCodeModule("embedded_runner", py_src)\<close> of
    \<^verbatim>\<open>bootandbuild.c\<close> does. Its arguments are constants of the program (the template's
    \<^verbatim>\<open>%r\<close> is never filled in), so the answer cannot depend on the payload. \<^verbatim>\<open>py_src\<close>
    is a string object where the function expects a code object: C leaves the behaviour
    undefined, and all three answers stay possible here;
  \<^item> \<open>scratch_unreadable\<close>: the scratch file, once written and closed, cannot be opened
    for reading.
  What the runtime prints and what an executed unit does to the file system are outside
  the model.
\<close>

record env =
  proc_self_exe :: "path option"
  tmpdir_var :: "path option"
  pid :: nat
  read_sound :: "path \<Rightarrow> nat option"
  fseek_fails :: "seek_site \<Rightarrow> bool"
  create_fails :: "path \<Rightarrow> bool"
  write_room :: "path \<Rightarrow> nat option"
  remove_fails :: "path \<Rightarrow> bool"
  py_compile :: "path \<Rightarrow> compile_outcome"
  py_exec :: "byte list \<Rightarrow> nat \<Rightarrow> py_outcome"
  py_run_text :: "string \<Rightarrow> py_result"
  py_module_exec :: module_outcome
  scratch_unreadable :: bool

text \<open>
  \<open>world\<close> is what the program changes: the files (\<open>files w p = None\<close>: no file that can
  be opened for reading at \<open>p\<close>), the paths made executable by \<^verbatim>\<open>chmod(p, 0755)\<close>, the
  lines the program itself prints (one entry per \<^verbatim>\<open>printf\<close>/\<^verbatim>\<open>fprintf\<close>, without the
  final newline), and a log of every \<^verbatim>\<open>fread\<close> issued: the offset it started at and the
  number of bytes it delivered. A stream keeps its own log, which \<^verbatim>\<open>fclose\<close> appends to
  the world's. \<open>ended w = Some x\<close> says that a call into the Python runtime did not
  come back: nothing after that call was executed, \<open>w\<close> is the world as the program left
  it, no value is returned (the result given with such a world is \<open>None\<close>), and the exit
  status of the process, if it has one, is in \<open>x\<close>.
\<close>

record world =
  files :: "path \<Rightarrow> byte list option"
  exec_bits :: "path set"
  stdout :: "string list"
  stderr :: "string list"
  reads :: "(nat \<times> nat) list"
  ended :: "ending option"

definition eprint :: "string \<Rightarrow> world \<Rightarrow> world" where
  "eprint s w = w\<lparr>stderr := stderr w @ [s]\<rparr>"

definition oprint :: "string \<Rightarrow> world \<Rightarrow> world" where
  "oprint s w = w\<lparr>stdout := stdout w @ [s]\<rparr>"

subsection \<open>stdio streams\<close>

text \<open>
  A stream opened with \<^verbatim>\<open>"rb"\<close> holds the file's bytes as they were when it was
  opened, so the model is the program when no path is open for reading and for writing at
  once. A stream opened with \<^verbatim>\<open>"wb"\<close> collects the bytes the device accepted;
  \<^verbatim>\<open>fclose\<close> puts them into the file.
\<close>

record istream =
  content :: "byte list"
  sound :: "nat option"
  pos :: nat
  rlog :: "(nat \<times> nat) list"

record ostream =
  written :: "byte list"
  room :: "nat option"

definition fopen_r :: "env \<Rightarrow> world \<Rightarrow> path \<Rightarrow> istream option" where
  "fopen_r e w p =
     (case files w p of
        None \<Rightarrow> None
      | Some bs \<Rightarrow> Some \<lparr>content = bs, sound = read_sound e p, pos = 0, rlog = []\<rparr>)"

definition fopen_w :: "env \<Rightarrow> path \<Rightarrow> ostream option" where
  "fopen_w e p = (if create_fails e p then None else Some \<lparr>written = [], room = write_room e p\<rparr>)"

definition readable :: "istream \<Rightarrow> byte list" where
  "readable f = (case sound f of None \<Rightarrow> content f | Some k \<Rightarrow> take k (content f))"

definition unread :: "istream \<Rightarrow> nat" where
  "unread f = length (drop (pos f) (readable f))"

text \<open>\<^verbatim>\<open>fread(buf, 1, n, f)\<close>: the bytes delivered and the stream after the call.\<close>

definition fread :: "istream \<Rightarrow> nat \<Rightarrow> byte list \<times> istream" where
  "fread f n =
     (let got = take n (drop (pos f) (readable f))
      in (got, f\<lparr>pos := pos f + length got, rlog := rlog f @ [(pos f, length got)]\<rparr>))"

text \<open>\<^verbatim>\<open>fwrite(buf, 1, n, f)\<close>: the number of bytes written and the stream after the call.
  The stream has no buffer here: a byte the device refuses is missing from the count of the
  \<^verbatim>\<open>fwrite\<close> that hands it over. With the buffer of stdio the loss can show as late as in
  \<^verbatim>\<open>fclose\<close>, whose result neither program looks at.\<close>

definition fwrite :: "ostream \<Rightarrow> byte list \<Rightarrow> nat \<times> ostream" where
  "fwrite f buf =
     (let k = (case room f of None \<Rightarrow> length buf | Some r \<Rightarrow> min r (length buf))
      in (k, f\<lparr>written := written f @ take k buf, room := map_option (\<lambda>r. r - k) (room f)\<rparr>))"

definition fclose_r :: "istream \<Rightarrow> world \<Rightarrow> world" where
  "fclose_r f w = w\<lparr>reads := reads w @ rlog f\<rparr>"

definition fclose_w :: "path \<Rightarrow> ostream \<Rightarrow> world \<Rightarrow> world" where
  "fclose_w p f w = w\<lparr>files := (files w)(p \<mapsto> written f)\<rparr>"

text \<open>\<^verbatim>\<open>fseek(f, 0, SEEK_END)\<close>, \<^verbatim>\<open>ftell(f)\<close> and \<^verbatim>\<open>fseek(f, off, SEEK_SET)\<close>. A negative
  offset is refused. \<^verbatim>\<open>ftell\<close> gives the position as a \<^verbatim>\<open>long\<close>; it is taken not to
  fail after a seek that succeeded.\<close>

definition fseek_end :: "env \<Rightarrow> istream \<Rightarrow> istream option" where
  "fseek_end e f = (if fseek_fails e SeekEnd then None else Some (f\<lparr>pos := length (content f)\<rparr>))"

definition ftell :: "istream \<Rightarrow> long" where
  "ftell f = word_of_nat (pos f)"

definition fseek_set :: "env \<Rightarrow> seek_site \<Rightarrow> istream \<Rightarrow> long \<Rightarrow> istream option" where
  "fseek_set e site f off =
     (if fseek_fails e site \<or> sint off < 0 then None else Some (f\<lparr>pos := nat (sint off)\<rparr>))"

definition remove_file :: "env \<Rightarrow> path \<Rightarrow> world \<Rightarrow> world" where
  "remove_file e p w = (if remove_fails e p then w else w\<lparr>files := (files w)(p := None)\<rparr>)"

definition chmod_exec :: "path \<Rightarrow> world \<Rightarrow> world" where
  "chmod_exec p w = w\<lparr>exec_bits := insert p (exec_bits w)\<rparr>"

section \<open>The footer\<close>

text \<open>\<^verbatim>\<open>write_u64_le\<close>: the eight bytes \<^verbatim>\<open>(v >> (8 * i)) & 0xFF\<close>, written with one
  \<^verbatim>\<open>fwrite\<close> whose result is not looked at.\<close>

definition u64_le_bytes :: "u64 \<Rightarrow> byte list" where
  "u64_le_bytes v = map (\<lambda>i. ucast (drop_bit (8 * i) v AND 0xFF)) [0..<8]"

definition write_u64_le :: "ostream \<Rightarrow> u64 \<Rightarrow> ostream" where
  "write_u64_le f v = snd (fwrite f (u64_le_bytes v))"

text \<open>\<^verbatim>\<open>read_u64_le\<close>: 0 when fewer than eight bytes arrive, else the bytes or-ed
  together, byte \<open>i\<close> shifted left by \<open>8 * i\<close>.\<close>

definition u64_of_le :: "byte list \<Rightarrow> u64" where
  "u64_of_le buf = fold (\<lambda>i v. v OR push_bit (8 * i) (ucast (buf ! i))) [0..<8] 0"

definition read_u64_le :: "istream \<Rightarrow> u64 \<times> istream" where
  "read_u64_le f =
     (let r = fread f 8
      in if length (fst r) \<noteq> 8 then (0, snd r) else (u64_of_le (fst r), snd r))"

section \<open>File names\<close>

definition digit :: "nat \<Rightarrow> char" where
  "digit d = ''0123456789'' ! d"

fun dec :: "nat \<Rightarrow> string" where
  "dec n = (if n < 10 then [digit n] else dec (n div 10) @ [digit (n mod 10)])"

declare dec.simps [simp del]

definition tmp_dir :: "env \<Rightarrow> path" where
  "tmp_dir e = (case tmpdir_var e of None \<Rightarrow> ''/tmp'' | Some td \<Rightarrow> td)"

text \<open>\<^verbatim>\<open>snprintf(tmpname, ..., "%s/embedded_payload_%ld.pyc", td, (long)getpid())\<close> and
  \<^verbatim>\<open>snprintf(temp_pyc, ..., "%s/temp_build_payload_%ld.pyc", td, (long)getpid())\<close>, for
  names that fit their buffers.\<close>

definition scratch_name :: "env \<Rightarrow> path" where
  "scratch_name e = tmp_dir e @ ''/embedded_payload_'' @ dec (pid e) @ ''.pyc''"

definition temp_pyc_name :: "env \<Rightarrow> path" where
  "temp_pyc_name e = tmp_dir e @ ''/temp_build_payload_'' @ dec (pid e) @ ''.pyc''"

text \<open>\<^verbatim>\<open>get_self_path\<close>: the path of the running binary, \<open>None\<close> for the return value 0.\<close>

definition get_self_path :: "env \<Rightarrow> path option" where
  "get_self_path e = proc_self_exe e"

section \<open>The copy loops\<close>

text \<open>
  \<^verbatim>\<open>while ((n = fread(buf, 1, sizeof(buf), f_in)) > 0) { payload_size += n;
  if (fwrite(buf, 1, n, f_out) != n) goto end; }\<close> of \<^verbatim>\<open>append_payload_to_stub\<close>, with
  \<^verbatim>\<open>sizeof(buf) = 8192\<close>. The result says whether every write was complete. The loop
  that copies the stub is the same loop without the counter.
\<close>

function copy_loop :: "istream \<Rightarrow> ostream \<Rightarrow> u64 \<Rightarrow> bool \<times> istream \<times> ostream \<times> u64" where
  "copy_loop fin fout acc =
     (let r = fread fin 8192
      in if fst r = [] then (True, snd r, fout, acc)
         else let wr = fwrite fout (fst r)
              in if fst wr \<noteq> length (fst r)
                 then (False, snd r, snd wr, acc + word_of_nat (length (fst r)))
                 else copy_loop (snd r) (snd wr) (acc + word_of_nat (length (fst r))))"
  by pat_completeness auto
termination
  by (relation "measure (\<lambda>(fin, fout, acc). unread fin)")
     (auto simp: fread_def unread_def readable_def Let_def min_def split: option.splits)

text \<open>
  \<^verbatim>\<open>while (remaining > 0) { toread = remaining > sizeof(buf) ? sizeof(buf) : remaining;
  got = fread(buf, 1, toread, f); if (got == 0) break; fwrite(buf, 1, got, fp);
  remaining -= got; }\<close> of \<^verbatim>\<open>run_appended_payload\<close>, with \<^verbatim>\<open>sizeof(buf) = 4096\<close>.
\<close>

function extract_loop :: "istream \<Rightarrow> ostream \<Rightarrow> u64 \<Rightarrow> istream \<times> ostream" where
  "extract_loop f fp remaining =
     (if remaining = 0 then (f, fp)
      else let toread = (if 4096 < unat remaining then 4096 else unat remaining);
               r = fread f toread
           in if fst r = [] then (snd r, fp)
              else extract_loop (snd r) (snd (fwrite fp (fst r)))
                     (remaining - word_of_nat (length (fst r))))"
  by pat_completeness auto
termination
  by (relation "measure (\<lambda>(f, fp, remaining). unread f)")
     (auto simp: fread_def unread_def readable_def Let_def min_def split: option.splits)

declare copy_loop.simps [simp del]

declare extract_loop.simps [simp del]

section \<open>Builder mode\<close>

text \<open>
  \<^verbatim>\<open>build_pyc_with_python\<close>: \<^verbatim>\<open>ret\<close> starts at 1, becomes 2 when the call of
  \<^verbatim>\<open>py_compile.compile\<close> raises and 0 when it returns; on success the compiled bytes are
  in the file \<open>out_pyc_path\<close>.
\<close>

definition build_pyc_with_python :: "env \<Rightarrow> world \<Rightarrow> path \<Rightarrow> path \<Rightarrow> failure option \<times> world" where
  "build_pyc_with_python e w script_path out_pyc_path =
     (case py_compile e script_path of
        CompileSetupFailed \<Rightarrow> (Some CompileSetupFailure, w)
      | CompileRaised \<Rightarrow> (Some CompileFailure, w)
      | Compiled bs \<Rightarrow> (None, w\<lparr>files := (files w)(out_pyc_path \<mapsto> bs)\<rparr>))"

text \<open>
  \<^verbatim>\<open>append_payload_to_stub\<close>. \<^verbatim>\<open>rc\<close> is 1 until the footer has been written; the three
  streams that were opened are closed on every path. Only \<^verbatim>\<open>pycclinux.c\<close> calls
  \<^verbatim>\<open>chmod(out_exe, 0755)\<close>, when \<^verbatim>\<open>rc\<close> is 0.
\<close>

definition append_payload_to_stub ::
  "variant \<Rightarrow> env \<Rightarrow> world \<Rightarrow> path \<Rightarrow> path \<Rightarrow> path \<Rightarrow> failure option \<times> world" where
  "append_payload_to_stub v e w stub_exe payload_pyc out_exe =
     (case fopen_r e w stub_exe of
        None \<Rightarrow> (Some AppendFailure, eprint (''Failed to open stub: '' @ stub_exe) w)
      | Some f_stub \<Rightarrow>
     (case fopen_r e w payload_pyc of
        None \<Rightarrow> (Some AppendFailure,
                  fclose_r f_stub (eprint (''Failed to open payload: '' @ payload_pyc) w))
      | Some f_payload \<Rightarrow>
     (case fopen_w e out_exe of
        None \<Rightarrow> (Some AppendFailure,
                  fclose_r f_payload (fclose_r f_stub
                    (eprint (''Failed to create output exe: '' @ out_exe) w)))
      | Some f_out \<Rightarrow>
        (case copy_loop f_stub f_out 0 of (ok1, f_stub1, f_out1, _) \<Rightarrow>
         if \<not> ok1
         then (Some AppendFailure,
               fclose_w out_exe f_out1 (fclose_r f_payload (fclose_r f_stub1
                 (eprint ''Write error'' w))))
         else
        (case copy_loop f_payload f_out1 0 of (ok2, f_payload1, f_out2, payload_size) \<Rightarrow>
         if \<not> ok2
         then (Some AppendFailure,
               fclose_w out_exe f_out2 (fclose_r f_payload1 (fclose_r f_stub1
                 (eprint ''Write error'' w))))
         else
        (case fwrite f_out2 FOOTER_MAGIC of (k, f_out3) \<Rightarrow>
         if k \<noteq> FOOTER_MAGIC_LEN
         then (Some AppendFailure,
               fclose_w out_exe f_out3 (fclose_r f_payload1 (fclose_r f_stub1
                 (eprint ''Footer write failed'' w))))
         else
           let f_out4 = write_u64_le f_out3 payload_size;
               w1 = fclose_w out_exe f_out4 (fclose_r f_payload1 (fclose_r f_stub1 w))
           in (None, if v = Pycclinux then chmod_exec out_exe w1 else w1)))))))"

text \<open>\<^verbatim>\<open>builder_mode\<close>. The temporary file is removed after \<^verbatim>\<open>append_payload_to_stub\<close>,
  whatever it returned, and not after a failed compilation.\<close>

definition builder_mode :: "variant \<Rightarrow> env \<Rightarrow> world \<Rightarrow> path \<Rightarrow> path \<Rightarrow> failure option \<times> world" where
  "builder_mode v e w script_path out_exe_path =
     (case get_self_path e of
        None \<Rightarrow> (Some SelfPathFailure, eprint ''Cannot get self path for stub copy'' w)
      | Some selfpath \<Rightarrow>
        let temp_pyc = temp_pyc_name e;
            w1 = oprint (''[*] Compiling '' @ script_path @ '' -> '' @ temp_pyc) w
        in (case build_pyc_with_python e w1 script_path temp_pyc of
              (Some r, w2) \<Rightarrow>
                (Some r, eprint (''[!] py_compile failed (code '' @ dec (nat (exit_code r)) @ '')'') w2)
            | (None, w2) \<Rightarrow>
                let w3 = oprint (''[*] Appending payload to stub and creating '' @ out_exe_path) w2
                in (case append_payload_to_stub v e w3 selfpath temp_pyc out_exe_path of
                      (Some r, w4) \<Rightarrow>
                        (Some r, remove_file e temp_pyc (eprint ''[!] Failed to append payload'' w4))
                    | (None, w4) \<Rightarrow>
                        (None, oprint (''[+] Built '' @ out_exe_path @ '' successfully'')
                                 (remove_file e temp_pyc w4)))))"

section \<open>Launcher mode\<close>

text \<open>
  The Python text that \<^verbatim>\<open>pycclinux.c\<close> hands to \<^verbatim>\<open>PyRun_SimpleString\<close>, with the name
  of the scratch file pasted in between quotes, and what \<^verbatim>\<open>snprintf\<close> leaves of it in the
  2048 bytes of \<^verbatim>\<open>py_code_str\<close>.
\<close>

definition quote :: char where
  "quote = CHR 0x27"

definition py_text :: "path \<Rightarrow> string" where
  "py_text tmpname =
     concat (map (\<lambda>l. l @ [CHR 0x0A])
       [''import marshal'',
        ''with open('' @ [quote] @ tmpname @ [quote] @ '', '' @ [quote] @ ''rb'' @ [quote] @ '') as f:'',
        ''    data = f.read()'',
        ''# Python 3.7+ has 16-byte header for hash-based pyc'',
        ''# Try to extract code object from pyc'',
        ''try:'',
        ''    # Skip header (typically 16 bytes in Python 3.7+)'',
        ''    code_obj = marshal.loads(data[16:])'',
        ''    exec(code_obj)'',
        ''except Exception as e:'',
        ''    # If that fails, try other header sizes'',
        ''    try:'',
        ''        code_obj = marshal.loads(data[12:])'',
        ''        exec(code_obj)'',
        ''    except:'',
        ''        code_obj = marshal.loads(data[8:])'',
        ''        exec(code_obj)''])"

definition py_code_str :: "path \<Rightarrow> string" where
  "py_code_str tmpname = take 2047 (py_text tmpname)"

text \<open>
  The text reaches the runtime as it is written in the source when nothing was cut off and
  the name is made of printable ASCII characters other than the quote and the backslash,
  so that the string literal holds the name itself.
\<close>

definition plain_char :: "char \<Rightarrow> bool" where
  "plain_char c = (32 \<le> (of_char c :: nat) \<and> (of_char c :: nat) \<le> 126 \<and> c \<noteq> quote \<and> c \<noteq> CHR 0x5C)"

definition text_intact :: "path \<Rightarrow> bool" where
  "text_intact tmpname = (length (py_text tmpname) \<le> 2047 \<and> list_all plain_char tmpname)"

text \<open>
  What the intact text does with the bytes \<open>data\<close> of the scratch file: it loads and
  executes \<^verbatim>\<open>data[16:]\<close>; if that raises an exception derived from \<^verbatim>\<open>Exception\<close>,
  \<^verbatim>\<open>data[12:]\<close>; if that raises anything (the inner \<^verbatim>\<open>except:\<close> is bare), \<^verbatim>\<open>data[8:]\<close>.
  An exception that leaves the text makes \<^verbatim>\<open>PyRun_SimpleString\<close> return -1, but for
  \<^verbatim>\<open>SystemExit\<close>, on which the process exits with the status it carries. The result is
  the list of header lengths tried and what became of the call.
\<close>

definition run_pyc :: "(byte list \<Rightarrow> nat \<Rightarrow> py_outcome) \<Rightarrow> byte list \<Rightarrow> nat list \<times> py_result" where
  "run_pyc ex data =
     (case ex data 16 of
        Finished \<Rightarrow> ([16], PyReturned 0)
      | RaisedSystemExit s \<Rightarrow> ([16], PyNoReturn (ExitedWith s))
      | RaisedOther \<Rightarrow> ([16], PyReturned (- 1))
      | NoReturn x \<Rightarrow> ([16], PyNoReturn x)
      | RaisedException \<Rightarrow>
          (case ex data 12 of
             Finished \<Rightarrow> ([16, 12], PyReturned 0)
           | NoReturn x \<Rightarrow> ([16, 12], PyNoReturn x)
           | _ \<Rightarrow>
               (case ex data 8 of
                  Finished \<Rightarrow> ([16, 12, 8], PyReturned 0)
                | RaisedSystemExit s \<Rightarrow> ([16, 12, 8], PyNoReturn (ExitedWith s))
                | NoReturn x \<Rightarrow> ([16, 12, 8], PyNoReturn x)
                | _ \<Rightarrow> ([16, 12, 8], PyReturned (- 1)))))"

text \<open>\<^verbatim>\<open>PyRun_SimpleString(py_code_str)\<close> in \<^verbatim>\<open>pycclinux.c\<close>. The \<^verbatim>\<open>open\<close> of the text
  stands before its \<^verbatim>\<open>try\<close>: when it fails, the call returns -1.\<close>

definition py_run_simple_string :: "env \<Rightarrow> world \<Rightarrow> path \<Rightarrow> py_result" where
  "py_run_simple_string e w tmpname =
     (if text_intact tmpname
      then (if scratch_unreadable e then PyReturned (- 1)
            else (case files w tmpname of
                    None \<Rightarrow> PyReturned (- 1)
                  | Some data \<Rightarrow> snd (run_pyc (py_exec e) data)))
      else py_run_text e (py_code_str tmpname))"

text \<open>
  The end of \<^verbatim>\<open>run_appended_payload\<close>, from \<^verbatim>\<open>Py_Initialize()\<close> on. In
  \<^verbatim>\<open>pycclinux.c\<close> \<^verbatim>\<open>remove(tmpname)\<close> follows on both returns of
  \<^verbatim>\<open>PyRun_SimpleString\<close>; when the call does not come back, nothing follows. In
  \<^verbatim>\<open>bootandbuild.c\<close> the file is opened again in C, the constant template is executed, and
  the call of \<^verbatim>\<open>remove\<close> is commented out.
\<close>

definition execute_payload :: "variant \<Rightarrow> env \<Rightarrow> world \<Rightarrow> path \<Rightarrow> failure option \<times> world" where
  "execute_payload v e w tmpname =
     (case v of
        Pycclinux \<Rightarrow>
          (case py_run_simple_string e w tmpname of
             PyNoReturn x \<Rightarrow> (None, w\<lparr>ended := Some x\<rparr>)
           | PyReturned result \<Rightarrow>
               if result \<noteq> 0
               then (Some ExecFailure,
                     remove_file e tmpname (eprint ''Failed to execute embedded Python code'' w))
               else (None, remove_file e tmpname w))
      | Bootandbuild \<Rightarrow>
          (case (if scratch_unreadable e then None else fopen_r e w tmpname) of
             None \<Rightarrow> (Some ScratchReopenFailure, eprint ''Failed to open extracted pyc'' w)
           | Some pyc \<Rightarrow>
               (case py_module_exec e of
                  ModuleLoaded \<Rightarrow> (None, w)
                | ModuleFailed \<Rightarrow> (Some ExecFailure, w)
                | ModuleNoReturn x \<Rightarrow> (None, w\<lparr>ended := Some x\<rparr>))))"

definition no_payload_msg :: "variant \<Rightarrow> string" where
  "no_payload_msg v =
     (case v of Pycclinux \<Rightarrow> ''No embedded payload found in binary''
              | Bootandbuild \<Rightarrow> ''No embedded payload found in exe'')"

text \<open>\<^verbatim>\<open>run_appended_payload\<close>, up to the extraction of the payload into the scratch
  file.\<close>

definition run_appended_payload :: "variant \<Rightarrow> env \<Rightarrow> world \<Rightarrow> failure option \<times> world" where
  "run_appended_payload v e w =
     (case get_self_path e of
        None \<Rightarrow> (Some SelfPathFailure, eprint ''Failed to get self path'' w)
      | Some selfpath \<Rightarrow>
     (case fopen_r e w selfpath of
        None \<Rightarrow> (Some OpenSelfFailure, eprint ''Failed to open self binary'' w)
      | Some f \<Rightarrow>
     (case fseek_end e f of
        None \<Rightarrow> (Some SeekEndFailure, fclose_r f w)
      | Some f0 \<Rightarrow>
        let endpos = ftell f0
        in if sint endpos < int FOOTER_LEN then (Some TooSmall, fclose_r f0 w)
           else
     (case fseek_set e SeekFooter f0 (endpos - word_of_nat FOOTER_LEN) of
        None \<Rightarrow> (Some FooterSeekFailure, fclose_r f0 w)
      | Some f1 \<Rightarrow>
        (case fread f1 FOOTER_MAGIC_LEN of (magic, f2) \<Rightarrow>
         if length magic \<noteq> FOOTER_MAGIC_LEN then (Some FooterReadFailure, fclose_r f2 w)
         else if magic \<noteq> FOOTER_MAGIC
         then (Some NoPayload, eprint (no_payload_msg v) (fclose_r f2 w))
         else
        (case read_u64_le f2 of (payload_size, f3) \<Rightarrow>
         if payload_size = 0
         then (Some ZeroPayload, eprint ''Embedded payload size is zero'' (fclose_r f3 w))
         else
           let payload_start = endpos - word_of_nat FOOTER_LEN - payload_size
           in if sint payload_start < 0
              then (Some CorruptFooter, eprint ''Invalid payload start'' (fclose_r f3 w))
              else
        (case fseek_set e SeekPayload f3 payload_start of
           None \<Rightarrow> (Some PayloadSeekFailure, fclose_r f3 w)
         | Some f4 \<Rightarrow>
             let tmpname = scratch_name e
             in (case fopen_w e tmpname of
                   None \<Rightarrow> (Some ScratchCreateFailure,
                             eprint ''Failed to create temp pyc'' (fclose_r f4 w))
                 | Some fp \<Rightarrow>
                     (case extract_loop f4 fp payload_size of (f5, fp1) \<Rightarrow>
                      execute_payload v e (fclose_r f5 (fclose_w tmpname fp1 w)) tmpname)))))))))"

section \<open>The mode dispatcher\<close>

definition argv0 :: "string list \<Rightarrow> string" where
  "argv0 argv = (case argv of [] \<Rightarrow> ''(null)'' | a # _ \<Rightarrow> a)"

definition out_word :: "variant \<Rightarrow> string" where
  "out_word v = (case v of Pycclinux \<Rightarrow> ''<out_binary>'' | Bootandbuild \<Rightarrow> ''<out.exe>'')"

definition usage_line :: "variant \<Rightarrow> string list \<Rightarrow> string" where
  "usage_line v argv = ''Usage: '' @ argv0 argv @ '' --build <script.py> '' @ out_word v"

text \<open>\<^verbatim>\<open>main\<close>; \<open>length argv\<close> is \<^verbatim>\<open>argc\<close>. The exit status of the process is
  \<open>status\<close> of the first component, unless a call into the runtime did not come back.\<close>

definition main :: "variant \<Rightarrow> env \<Rightarrow> world \<Rightarrow> string list \<Rightarrow> failure option \<times> world" where
  "main v e w argv =
     (if 2 \<le> length argv \<and> argv ! 1 = ''--build''
      then if length argv < 4
           then (Some UsageError, eprint (usage_line v argv) w)
           else builder_mode v e w (argv ! 2) (argv ! 3)
      else (case run_appended_payload v e w of
              (None, w1) \<Rightarrow> (None, w1)
            | (Some r, w1) \<Rightarrow>
                (Some r,
                 eprint (''Usage to build: '' @ argv0 argv @ '' --build <script.py> '' @ out_word v)
                   (eprint (''Bootloader: no embedded payload or run failed (code ''
                              @ dec (nat (exit_code r)) @ '')'') w1))))"

section \<open>Predicates on the environment and concrete inputs\<close>

text \<open>\<open>room_for f n\<close>: the device behind \<open>f\<close> accepts \<open>n\<close> more bytes.
  \<open>sound_upto e p n\<close>: the first \<open>n\<close> bytes of \<open>p\<close> can be read.\<close>

definition room_for :: "ostream \<Rightarrow> nat \<Rightarrow> bool" where
  "room_for f n = (case room f of None \<Rightarrow> True | Some r \<Rightarrow> n \<le> r)"

definition sound_upto :: "env \<Rightarrow> path \<Rightarrow> nat \<Rightarrow> bool" where
  "sound_upto e p n = (case read_sound e p of None \<Rightarrow> True | Some k \<Rightarrow> n \<le> k)"



text \<open>How the process ends when \<^verbatim>\<open>main\<close>, or the function whose value it returns, has
  the result \<open>r\<close>.\<close>

definition process_end :: "failure option \<times> world \<Rightarrow> ending" where
  "process_end r = (case ended (snd r) of Some x \<Rightarrow> x | None \<Rightarrow> ExitedWith (status (fst r)))"

text \<open>
  The checks of the launcher as conditions on the environment and on the bytes \<open>bs\<close> of
  the running binary, in the order in which they are made, each with the failure it ends
  in; \<open>None\<close> when all pass and the payload goes to the runtime. No stream occurs here: this
  table is what the launcher is compared with. \<open>n\<close> is the size of the binary; the magic
  is at \<open>n - 13\<close> and the size field at \<open>n - 8\<close>.
\<close>

definition failed_check :: "env \<Rightarrow> world \<Rightarrow> failure option" where
  "failed_check e w =
     (case proc_self_exe e of
        None \<Rightarrow> Some SelfPathFailure
      | Some p \<Rightarrow>
     (case files w p of
        None \<Rightarrow> Some OpenSelfFailure
      | Some bs \<Rightarrow>
          let n = length bs; sz = u64_of_le (drop (n - 8) bs)
          in if fseek_fails e SeekEnd then Some SeekEndFailure
             else if n < 13 then Some TooSmall
             else if fseek_fails e SeekFooter then Some FooterSeekFailure
             else if \<not> sound_upto e p (n - 8) then Some FooterReadFailure
             else if take 5 (drop (n - 13) bs) \<noteq> FOOTER_MAGIC then Some NoPayload
             else if \<not> sound_upto e p n then Some ZeroPayload
             else if sz = 0 then Some ZeroPayload
             else if sint (word_of_nat n - word_of_nat FOOTER_LEN - sz :: long) < 0
                  then Some CorruptFooter
             else if fseek_fails e SeekPayload then Some PayloadSeekFailure
             else if create_fails e (scratch_name e) then Some ScratchCreateFailure
             else None))"

text \<open>The size of the running binary, 0 when there is none to open.\<close>

definition self_size :: "env \<Rightarrow> world \<Rightarrow> nat" where
  "self_size e w =
     (case proc_self_exe e of
        None \<Rightarrow> 0
      | Some p \<Rightarrow> (case files w p of None \<Rightarrow> 0 | Some bs \<Rightarrow> length bs))"

text \<open>The failures \<^verbatim>\<open>run_appended_payload\<close> returns, and those \<^verbatim>\<open>builder_mode\<close>
  returns.\<close>

definition launcher_failures :: "failure set" where
  "launcher_failures =
     {SelfPathFailure, OpenSelfFailure, SeekEndFailure, TooSmall, FooterSeekFailure,
      FooterReadFailure, NoPayload, ZeroPayload, CorruptFooter, PayloadSeekFailure,
      ScratchCreateFailure, ScratchReopenFailure, ExecFailure}"

definition builder_failures :: "failure set" where
  "builder_failures = {SelfPathFailure, CompileSetupFailure, CompileFailure, AppendFailure}"

text \<open>
  A small world to run the programs in: the binary is \<^verbatim>\<open>/opt/app\<close>, a 16-byte stub
  (the identification bytes of an ELF header); \<^verbatim>\<open>hello.py\<close> compiles to a 16-byte
  header followed by three bytes of code, and every other script fails to compile; the
  runtime loads and executes a slice that holds exactly those three bytes and raises an
  exception on every other; no call of the operating system fails.
\<close>

definition demo_stub :: "byte list" where
  "demo_stub = [0x7F, 0x45, 0x4C, 0x46, 2, 1, 1, 0, 0, 0, 0, 0, 0, 0, 0, 0]"

definition demo_code :: "byte list" where
  "demo_code = [0xE3, 0x01, 0x02]"

definition demo_pyc :: "byte list" where
  "demo_pyc = [0x42, 0x0D, 0x0D, 0x0A, 0, 0, 0, 0, 0, 0, 0, 0, 0, 0, 0, 0] @ demo_code"

definition demo_env :: env where
  "demo_env =
     \<lparr>proc_self_exe = Some ''/opt/app'', tmpdir_var = None, pid = 42,
      read_sound = (\<lambda>p. None), fseek_fails = (\<lambda>s. False), create_fails = (\<lambda>p. False),
      write_room = (\<lambda>p. None), remove_fails = (\<lambda>p. False),
      py_compile = (\<lambda>p. if p = ''hello.py'' then Compiled demo_pyc else CompileRaised),
      py_exec = (\<lambda>data k. if drop k data = demo_code then Finished else RaisedException),
      py_run_text = (\<lambda>t. PyReturned (- 1)), py_module_exec = ModuleLoaded,
      scratch_unreadable = False\<rparr>"

definition demo_world :: "byte list \<Rightarrow> world" where
  "demo_world self =
     \<lparr>files = (\<lambda>p. if p = ''/opt/app'' then Some self else None), exec_bits = {},
      stdout = [], stderr = [], reads = [], ended = None\<rparr>"

text \<open>The same environment with a read error at offset 24 of every file.\<close>

definition bad_sector_env :: env where
  "bad_sector_env = demo_env\<lparr>read_sound := (\<lambda>p. Some 24)\<rparr>"

text \<open>Two self binaries: a built image (stub, payload, footer with size 19), and a stub
  followed by a footer whose eight size bytes are all \<^verbatim>\<open>0xFF\<close>.\<close>

definition demo_image :: "byte list" where
  "demo_image = demo_stub @ demo_pyc @ FOOTER_MAGIC @ [19, 0, 0, 0, 0, 0, 0, 0]"

definition huge_size_image :: "byte list" where
  "huge_size_image = demo_stub @ FOOTER_MAGIC @ [0xFF, 0xFF, 0xFF, 0xFF, 0xFF, 0xFF, 0xFF, 0xFF]"

text \<open>The world after the launcher has extracted the payload of \<open>demo_image\<close>, and the
  same with other bytes in the scratch file.\<close>

definition extracted_world :: "byte list \<Rightarrow> world" where
  "extracted_world data =
     (demo_world demo_image)
       \<lparr>files := (files (demo_world demo_image))(''/tmp/embedded_payload_42.pyc'' \<mapsto> data)\<rparr>"

text \<open>Environments that differ from \<open>demo_env\<close> in one answer: a runtime in which every
  execution fails; a device that accepts 40 bytes for \<^verbatim>\<open>out\<close> (stub, payload and magic,
  and no more); a read error at offset 8 of the running binary; \<^verbatim>\<open>readlink\<close> failing; the
  running binary no longer at its path; a payload that ends with \<^verbatim>\<open>sys.exit(5)\<close>; a scratch
  file that cannot be read back.\<close>

definition failing_runtime_env :: env where
  "failing_runtime_env =
     demo_env\<lparr>py_exec := (\<lambda>data k. RaisedException), py_module_exec := ModuleFailed\<rparr>"

definition full_disk_env :: env where
  "full_disk_env = demo_env\<lparr>write_room := (\<lambda>p. if p = ''out'' then Some 40 else None)\<rparr>"

definition stub_read_error_env :: env where
  "stub_read_error_env = demo_env\<lparr>read_sound := (\<lambda>p. if p = ''/opt/app'' then Some 8 else None)\<rparr>"

definition no_self_env :: env where
  "no_self_env = demo_env\<lparr>proc_self_exe := None\<rparr>"

definition moved_env :: env where
  "moved_env = demo_env\<lparr>proc_self_exe := Some ''/opt/gone''\<rparr>"

definition exiting_payload_env :: env where
  "exiting_payload_env =
     demo_env\<lparr>py_exec := (\<lambda>data k. if drop k data = demo_code then RaisedSystemExit 5
                                     else RaisedException)\<rparr>"

definition unreadable_scratch_env :: env where
  "unreadable_scratch_env = demo_env\<lparr>scratch_unreadable := True\<rparr>"

section \<open>Words, streams and the footer bytes\<close>

lemma sint_long_of_nat: "n < 2 ^ 63 \<Longrightarrow> sint (word_of_nat n :: long) = int n"
  by (simp add: signed_of_nat signed_take_bit_int_eq_self_iff take_bit_nat_eq_self)

lemma footer_offset:
  assumes "13 \<le> n" and "n < 2 ^ 63"
  shows "sint (word_of_nat n - 13 :: long) = int n - 13"
proof -
  have "(word_of_nat n - 13 :: long) = word_of_nat (n - 13)"
    using assms(1) by (simp add: of_nat_diff)
  moreover have "sint (word_of_nat (n - 13) :: long) = int (n - 13)"
    using assms(2) by (intro sint_long_of_nat) simp
  ultimately show ?thesis using assms(1) by simp
qed

lemma fread_fst: "fst (fread f n) = take n (drop (pos f) (readable f))"
  by (simp add: fread_def Let_def)

lemma fread_snd:
  "content (snd (fread f n)) = content f"
  "sound (snd (fread f n)) = sound f"
  "pos (snd (fread f n)) = pos f + min n (unread f)"
  "readable (snd (fread f n)) = readable f"
  "rlog (snd (fread f n)) = rlog f @ [(pos f, min n (unread f))]"
  by (simp_all add: fread_def Let_def readable_def unread_def min.commute split: option.splits)

lemma mask8_u64: "(0xFF :: u64) = mask 8"
  by (simp add: mask_eq_exp_minus_1)

lemma byte_step:
  "take_bit (8 * k) v OR push_bit (8 * k) (ucast (ucast (drop_bit (8 * k) v AND mask 8 :: u64) :: byte) :: u64)
     = take_bit (8 * Suc k) (v :: u64)"
  by (rule bit_word_eqI) (auto simp add: bit_simps)

lemma u64_of_le_partial:
  "k \<le> 8 \<Longrightarrow>
   fold (\<lambda>i a. a OR push_bit (8 * i) (ucast (u64_le_bytes v ! i))) [0..<k] 0 = take_bit (8 * k) v"
proof (induction k)
  case 0
  show ?case by simp
next
  case (Suc k)
  then have "u64_le_bytes v ! k = ucast (drop_bit (8 * k) v AND mask 8)"
    by (simp add: u64_le_bytes_def mask8_u64)
  with Suc show ?case
    using byte_step [of k v] by simp
qed

lemma u64_of_le_bytes: "u64_of_le (u64_le_bytes v) = v"
  using u64_of_le_partial [of 8 v] by (simp add: u64_of_le_def take_bit_word_eq_self)

lemma length_u64_le_bytes: "length (u64_le_bytes v) = 8"
  by (simp add: u64_le_bytes_def)

lemma upt8: "[0..<8] = [0, 1, 2, 3, 4, 5, 6, 7]"
  by code_simp

lemma u64_le_bytes_19: "u64_le_bytes 19 = [19, 0, 0, 0, 0, 0, 0, 0]"
  by (simp add: u64_le_bytes_def upt8 drop_bit_eq_div)

lemma u64_of_le_19: "u64_of_le [19, 0, 0, 0, 0, 0, 0, 0] = 19"
  by (simp add: u64_of_le_def upt8)

lemma u64_of_le_ff: "u64_of_le [0xFF, 0xFF, 0xFF, 0xFF, 0xFF, 0xFF, 0xFF, 0xFF] = - 1"
  by (simp add: u64_of_le_def upt8)

lemma unat_minus_1_u64: "unat (- 1 :: u64) = 18446744073709551615"
  by (simp add: unsigned_minus_1_eq_mask mask_eq_exp_minus_1)

lemma dec_42: "dec 42 = ''42''"
  by (simp add: dec.simps digit_def)

lemma length_py_text: "length (py_text tmpname) = 490 + length tmpname"
  by (simp add: py_text_def)

lemma text_intact_demo: "text_intact ''/tmp/embedded_payload_42.pyc''"
  by (simp add: text_intact_def length_py_text plain_char_def quote_def)

lemmas launcher_defs = run_appended_payload_def execute_payload_def get_self_path_def fopen_r_def fopen_w_def
  fseek_end_def fseek_set_def ftell_def fread_def fwrite_def fclose_r_def fclose_w_def
  read_u64_le_def readable_def FOOTER_LEN_def FOOTER_MAGIC_LEN_def FOOTER_MAGIC_def eprint_def
  remove_file_def scratch_name_def tmp_dir_def no_payload_msg_def py_run_simple_string_def
  run_pyc_def Let_def

lemmas demo_defs = demo_env_def demo_world_def demo_stub_def demo_code_def demo_pyc_def dec_42
  text_intact_demo

lemmas builder_defs = builder_mode_def get_self_path_def build_pyc_with_python_def append_payload_to_stub_def
  temp_pyc_name_def tmp_dir_def fopen_r_def fopen_w_def fread_def fwrite_def fclose_r_def
  fclose_w_def readable_def write_u64_le_def FOOTER_MAGIC_LEN_def FOOTER_MAGIC_def eprint_def
  oprint_def remove_file_def chmod_exec_def Let_def

lemma sint_diff_nonneg:
  fixes a b :: long
  assumes "0 \<le> sint a" and "0 \<le> sint b"
  shows "sint (a - b) = sint a - sint b"
proof -
  have "sint a < 2 ^ 63" "sint b < 2 ^ 63"
    using sint_lt [of a] sint_lt [of b] by simp_all
  with assms have "- (2 ^ 63) \<le> sint a - sint b" "sint a - sint b < 2 ^ 63"
    by simp_all
  then show ?thesis
    by (simp add: sint_word_ariths signed_take_bit_int_eq_self)
qed

section \<open>The copy loop on a sound medium with room on the device\<close>

lemma fwrite_full:
  "room_for f (length buf) \<Longrightarrow> fst (fwrite f buf) = length buf"
  "room_for f (length buf) \<Longrightarrow> written (snd (fwrite f buf)) = written f @ buf"
  "room (snd (fwrite f buf)) = map_option (\<lambda>r. r - fst (fwrite f buf)) (room f)"
  by (auto simp: fwrite_def room_for_def Let_def split: option.splits)

lemma copy_loop_done:
  "fst (fread fin 8192) = [] \<Longrightarrow> copy_loop fin fout acc = (True, snd (fread fin 8192), fout, acc)"
  by (subst copy_loop.simps) (simp add: Let_def)

lemma copy_loop_step:
  "fst (fread fin 8192) \<noteq> [] \<Longrightarrow>
   fst (fwrite fout (fst (fread fin 8192))) = length (fst (fread fin 8192)) \<Longrightarrow>
   copy_loop fin fout acc =
     copy_loop (snd (fread fin 8192)) (snd (fwrite fout (fst (fread fin 8192))))
       (acc + word_of_nat (length (fst (fread fin 8192))))"
  by (subst copy_loop.simps) (simp add: Let_def)

lemma take_drop_min: "take n xs @ drop (min (length xs) n) xs = xs"
  by (cases "n \<le> length xs") (simp_all add: min_def)

lemma copy_loop_complete:
  "room_for fout (unread fin) \<Longrightarrow>
     fst (copy_loop fin fout acc) \<and>
     written (fst (snd (snd (copy_loop fin fout acc)))) = written fout @ drop (pos fin) (readable fin) \<and>
     room (fst (snd (snd (copy_loop fin fout acc)))) = map_option (\<lambda>r. r - unread fin) (room fout) \<and>
     snd (snd (snd (copy_loop fin fout acc))) = acc + word_of_nat (unread fin)"
proof (induction fin fout acc rule: copy_loop.induct)
  case (1 fin fout acc)
  let ?rest = "drop (pos fin) (readable fin)"
  let ?chunk = "take 8192 ?rest"
  have chunk: "fst (fread fin 8192) = ?chunk" by (rule fread_fst)
  show ?case
  proof (cases "?chunk = []")
    case True
    then have rest: "?rest = []" by (cases ?rest) auto
    then have un0: "unread fin = 0" by (simp add: unread_def)
    have "copy_loop fin fout acc = (True, snd (fread fin 8192), fout, acc)"
      using True chunk by (simp add: copy_loop_done)
    then show ?thesis
      using rest un0 by (simp add: option.map_ident)
  next
    case False
    have len: "length ?chunk = min 8192 (unread fin)" by (simp add: unread_def min.commute)
    then have le: "length ?chunk \<le> unread fin" by simp
    from "1.prems" le have rf: "room_for fout (length ?chunk)"
      by (auto simp: room_for_def split: option.splits)
    let ?fin1 = "snd (fread fin 8192)" and ?fout1 = "snd (fwrite fout ?chunk)"
    let ?acc1 = "acc + word_of_nat (length ?chunk)"
    have un1: "unread ?fin1 = unread fin - length ?chunk"
      by (simp add: unread_def fread_snd)
    have wr: "fst (fwrite fout ?chunk) = length ?chunk" "written ?fout1 = written fout @ ?chunk"
      "room ?fout1 = map_option (\<lambda>r. r - length ?chunk) (room fout)"
      using rf by (simp_all add: fwrite_full)
    have rf1: "room_for ?fout1 (unread ?fin1)"
      using "1.prems" un1 le
      by (auto simp: room_for_def wr diff_le_mono split: option.splits)
    have step: "copy_loop fin fout acc = copy_loop ?fin1 ?fout1 ?acc1"
      using False wr(1) copy_loop_step [of fin fout acc] by (simp add: chunk)
    have IH: "fst (copy_loop ?fin1 ?fout1 ?acc1) \<and>
     written (fst (snd (snd (copy_loop ?fin1 ?fout1 ?acc1)))) = written ?fout1 @ drop (pos ?fin1) (readable ?fin1) \<and>
     room (fst (snd (snd (copy_loop ?fin1 ?fout1 ?acc1)))) = map_option (\<lambda>r. r - unread ?fin1) (room ?fout1) \<and>
     snd (snd (snd (copy_loop ?fin1 ?fout1 ?acc1))) = ?acc1 + word_of_nat (unread ?fin1)"
      using "1.IH" [OF refl _ refl _ rf1 [unfolded chunk [symmetric]]] False wr(1)
      by (simp add: chunk)
    have app: "?chunk @ drop (pos ?fin1) (readable ?fin1) = ?rest"
    proof -
      have "drop (pos ?fin1) (readable ?fin1) = drop (min (length ?rest) 8192) ?rest"
        by (simp add: fread_snd unread_def min.commute add.commute)
      then show ?thesis by (simp only: take_drop_min)
    qed
    have cnt: "(word_of_nat (length ?chunk) :: u64) + word_of_nat (unread ?fin1) = word_of_nat (unread fin)"
      using le un1 by (simp flip: of_nat_add)
    have rm: "map_option (\<lambda>r. r - unread ?fin1) (room ?fout1) = map_option (\<lambda>r. r - unread fin) (room fout)"
      using "1.prems" le un1 by (cases "room fout") (auto simp: wr room_for_def)
    show ?thesis
      unfolding step using IH app cnt rm
      by (simp add: wr add.assoc)
  qed
qed

section \<open>The footer is read back as it was written\<close>

text \<open>
  C1. Footer symmetry. Take any non-zero 64-bit \<open>n\<close> and any output stream whose device
  accepts every byte. After the two writes that end \<^verbatim>\<open>append_payload_to_stub\<close> (the magic,
  then \<^verbatim>\<open>write_u64_le\<close>) the stream has grown by the 13 bytes \<^verbatim>\<open>PYBND\<close> and \<open>n\<close> in
  little-endian order. Reading those 13 bytes the way \<^verbatim>\<open>run_appended_payload\<close> does (five
  bytes, then \<^verbatim>\<open>read_u64_le\<close>) yields the magic, so the footer is valid, and the size read
  is \<open>n\<close>, which is not zero.
\<close>

theorem footer_symmetry:
  fixes n :: u64
  assumes "n \<noteq> 0" and "room fo = None"
  defines "out \<equiv> write_u64_le (snd (fwrite fo FOOTER_MAGIC)) n"
  defines "f \<equiv> \<lparr>content = written out, sound = None, pos = length (written fo), rlog = []\<rparr>"
  shows "written out = written fo @ FOOTER_MAGIC @ u64_le_bytes n
         \<and> length (FOOTER_MAGIC @ u64_le_bytes n) = FOOTER_LEN
         \<and> fst (fread f FOOTER_MAGIC_LEN) = FOOTER_MAGIC
         \<and> fst (read_u64_le (snd (fread f FOOTER_MAGIC_LEN))) = n
         \<and> fst (read_u64_le (snd (fread f FOOTER_MAGIC_LEN))) \<noteq> 0"
proof -
  have w: "written out = written fo @ FOOTER_MAGIC @ u64_le_bytes n"
    using assms(2) by (simp add: out_def write_u64_le_def fwrite_def Let_def)
  have m: "fread f FOOTER_MAGIC_LEN
             = (FOOTER_MAGIC, f\<lparr>pos := length (written fo) + 5, rlog := [(length (written fo), 5)]\<rparr>)"
    by (simp add: fread_def readable_def f_def w Let_def FOOTER_MAGIC_LEN_def FOOTER_MAGIC_def)
  have s: "fst (fread (f\<lparr>pos := length (written fo) + 5, rlog := [(length (written fo), 5)]\<rparr>) 8)
             = u64_le_bytes n"
    by (simp add: fread_def readable_def f_def w Let_def FOOTER_MAGIC_def length_u64_le_bytes)
  have "fst (read_u64_le (snd (fread f FOOTER_MAGIC_LEN))) = n"
    by (simp add: m read_u64_le_def Let_def s length_u64_le_bytes u64_of_le_bytes)
  with w m assms(1) show ?thesis
    by (simp add: FOOTER_LEN_def FOOTER_MAGIC_def length_u64_le_bytes)
qed

theorem footer_symmetry_witness:
  "(19 :: u64) \<noteq> 0
   \<and> written (write_u64_le (snd (fwrite \<lparr>written = demo_pyc, room = None\<rparr> FOOTER_MAGIC)) 19)
        = demo_pyc @ [0x50, 0x59, 0x42, 0x4E, 0x44] @ [19, 0, 0, 0, 0, 0, 0, 0]
   \<and> fst (fread \<lparr>content = demo_pyc @ [0x50, 0x59, 0x42, 0x4E, 0x44] @ [19, 0, 0, 0, 0, 0, 0, 0],
                  sound = None, pos = 19, rlog = []\<rparr> FOOTER_MAGIC_LEN) = FOOTER_MAGIC
   \<and> fst (read_u64_le (snd (fread
             \<lparr>content = demo_pyc @ [0x50, 0x59, 0x42, 0x4E, 0x44] @ [19, 0, 0, 0, 0, 0, 0, 0],
              sound = None, pos = 19, rlog = []\<rparr> FOOTER_MAGIC_LEN))) = 19"
  using footer_symmetry [of 19 "\<lparr>written = demo_pyc, room = None\<rparr>"]
  by (simp add: u64_le_bytes_19 u64_of_le_19 FOOTER_MAGIC_def FOOTER_MAGIC_LEN_def demo_pyc_def
      demo_code_def write_u64_le_def fwrite_def fread_def read_u64_le_def readable_def Let_def)

section \<open>The launcher's checks of the footer\<close>

text \<open>
  C3. Boundary rejection. When the running binary can be located and opened and the seek to
  its end succeeds, a binary shorter than the 13 bytes of a footer makes the launcher
  return \<open>TooSmall\<close> and leave the world as it was: nothing is printed or written and no
  \<^verbatim>\<open>fread\<close> is issued, so no byte is read, inside or outside the file. \<open>TooSmall\<close> exits
  with 4, and no other failure does.
\<close>

theorem too_small_rejected:
  assumes "proc_self_exe e = Some p" and "files w p = Some bs" and "\<not> fseek_fails e SeekEnd"
    and "length bs < FOOTER_LEN"
  shows "run_appended_payload v e w = (Some TooSmall, w)
         \<and> exit_code TooSmall = 4 \<and> (\<forall>x. exit_code x = 4 \<longrightarrow> x = TooSmall)"
proof -
  from assms(4) have "sint (word_of_nat (length bs) :: long) = int (length bs)"
    by (intro sint_long_of_nat) (simp add: FOOTER_LEN_def)
  with assms have "run_appended_payload v e w = (Some TooSmall, w)"
    by (simp add: run_appended_payload_def get_self_path_def fopen_r_def fseek_end_def ftell_def
        fclose_r_def Let_def)
  moreover have "\<forall>x. exit_code x = 4 \<longrightarrow> x = TooSmall"
  proof (intro allI impI)
    fix x assume "exit_code x = 4" then show "x = TooSmall" by (cases x) simp_all
  qed
  ultimately show ?thesis by simp
qed

theorem too_small_rejected_witness:
  "proc_self_exe demo_env = Some ''/opt/app''
   \<and> files (demo_world [0x7F, 0x45, 0x4C, 0x46]) ''/opt/app'' = Some [0x7F, 0x45, 0x4C, 0x46]
   \<and> \<not> fseek_fails demo_env SeekEnd
   \<and> length [0x7F, 0x45, 0x4C, 0x46 :: byte] < FOOTER_LEN
   \<and> run_appended_payload Pycclinux demo_env (demo_world [0x7F, 0x45, 0x4C, 0x46])
       = (Some TooSmall, demo_world [0x7F, 0x45, 0x4C, 0x46])
   \<and> run_appended_payload Bootandbuild demo_env (demo_world [0x7F, 0x45, 0x4C, 0x46])
       = (Some TooSmall, demo_world [0x7F, 0x45, 0x4C, 0x46])"
  using too_small_rejected [of demo_env "''/opt/app''" "demo_world [0x7F, 0x45, 0x4C, 0x46]"
      "[0x7F, 0x45, 0x4C, 0x46]" Pycclinux]
    too_small_rejected [of demo_env "''/opt/app''" "demo_world [0x7F, 0x45, 0x4C, 0x46]"
      "[0x7F, 0x45, 0x4C, 0x46]" Bootandbuild]
  by (simp add: demo_env_def demo_world_def FOOTER_LEN_def)

text \<open>The launcher up to the comparison of the magic, on a file that ends in 13 bytes
  \<open>magic @ sz\<close>.\<close>

lemma reach_footer:
  assumes sp: "proc_self_exe e = Some p" and fl: "files w p = Some (pre @ magic @ sz)"
    and len: "length magic = 5" "length sz = 8" and size: "length pre + 13 < 2 ^ 63"
    and seeks: "\<not> fseek_fails e SeekEnd" "\<not> fseek_fails e SeekFooter"
  defines "f1 \<equiv> \<lparr>content = pre @ magic @ sz, sound = read_sound e p, pos = length pre, rlog = []\<rparr>"
  shows "run_appended_payload v e w =
     (case fread f1 FOOTER_MAGIC_LEN of (m, f2) \<Rightarrow>
         if length m \<noteq> FOOTER_MAGIC_LEN then (Some FooterReadFailure, fclose_r f2 w)
         else if m \<noteq> FOOTER_MAGIC
         then (Some NoPayload, eprint (no_payload_msg v) (fclose_r f2 w))
         else
        (case read_u64_le f2 of (payload_size, f3) \<Rightarrow>
         if payload_size = 0
         then (Some ZeroPayload, eprint ''Embedded payload size is zero'' (fclose_r f3 w))
         else
           let payload_start = word_of_nat (length pre + 13) - word_of_nat FOOTER_LEN - payload_size
           in if sint payload_start < 0
              then (Some CorruptFooter, eprint ''Invalid payload start'' (fclose_r f3 w))
              else
        (case fseek_set e SeekPayload f3 payload_start of
           None \<Rightarrow> (Some PayloadSeekFailure, fclose_r f3 w)
         | Some f4 \<Rightarrow>
             let tmpname = scratch_name e
             in (case fopen_w e tmpname of
                   None \<Rightarrow> (Some ScratchCreateFailure,
                             eprint ''Failed to create temp pyc'' (fclose_r f4 w))
                 | Some fp \<Rightarrow>
                     (case extract_loop f4 fp payload_size of (f5, fp1) \<Rightarrow>
                      execute_payload v e (fclose_r f5 (fclose_w tmpname fp1 w)) tmpname)))))"
proof -
  have n: "sint (word_of_nat (length pre + 13) :: long) = int (length pre + 13)"
    using size by (intro sint_long_of_nat)
  have off: "sint (word_of_nat (length pre + 13) - 13 :: long) = int (length pre + 13) - 13"
    using size by (intro footer_offset) simp_all
  show ?thesis
    using sp fl len seeks n off
    by (simp add: run_appended_payload_def get_self_path_def fopen_r_def fseek_end_def ftell_def
        fseek_set_def FOOTER_LEN_def f1_def Let_def cong: prod.case_cong if_cong option.case_cong)
qed

text \<open>
  C4. Corrupt or absent magic. When the binary has at least 13 bytes, the seeks succeed and
  the five bytes at \<open>size - 13\<close> can be read, any five bytes other than \<^verbatim>\<open>PYBND\<close> there
  (a single changed byte included) make the launcher return \<open>NoPayload\<close>, print the
  "no embedded payload" line, and read nothing but those five bytes. \<open>NoPayload\<close> exits with
  7, and no other failure does.
\<close>

theorem no_payload_reported:
  assumes "proc_self_exe e = Some p" and "files w p = Some (pre @ magic @ sz)"
    and "length magic = 5" and "length sz = 8" and "length pre + 13 < 2 ^ 63"
    and "\<not> fseek_fails e SeekEnd" and "\<not> fseek_fails e SeekFooter"
    and "sound_upto e p (length pre + 5)"
    and "magic \<noteq> FOOTER_MAGIC"
  shows "run_appended_payload v e w
           = (Some NoPayload, eprint (no_payload_msg v) (w\<lparr>reads := reads w @ [(length pre, 5)]\<rparr>))
         \<and> exit_code NoPayload = 7 \<and> (\<forall>x. exit_code x = 7 \<longrightarrow> x = NoPayload)"
proof -
  let ?f1 = "\<lparr>content = pre @ magic @ sz, sound = read_sound e p, pos = length pre, rlog = []\<rparr>"
  have rd: "fread ?f1 5 = (magic, ?f1\<lparr>pos := length pre + 5, rlog := [(length pre, 5)]\<rparr>)"
    using assms(3,8) by (auto simp: fread_def readable_def sound_upto_def Let_def split: option.splits)
  have "run_appended_payload v e w
           = (Some NoPayload, eprint (no_payload_msg v) (w\<lparr>reads := reads w @ [(length pre, 5)]\<rparr>))"
    using assms(3,9) reach_footer [OF assms(1-7), of v]
    by (simp add: rd FOOTER_MAGIC_LEN_def fclose_r_def)
  moreover have "\<forall>x. exit_code x = 7 \<longrightarrow> x = NoPayload"
  proof (intro allI impI)
    fix x assume "exit_code x = 7" then show "x = NoPayload" by (cases x) simp_all
  qed
  ultimately show ?thesis by simp
qed

theorem no_payload_reported_witness:
  "proc_self_exe demo_env = Some ''/opt/app''
   \<and> files (demo_world (demo_stub @ [0x50, 0x59, 0x42, 0x4E, 0x45] @ [19, 0, 0, 0, 0, 0, 0, 0])) ''/opt/app''
        = Some (demo_stub @ [0x50, 0x59, 0x42, 0x4E, 0x45] @ [19, 0, 0, 0, 0, 0, 0, 0])
   \<and> [0x50, 0x59, 0x42, 0x4E, 0x45] \<noteq> FOOTER_MAGIC
   \<and> sound_upto demo_env ''/opt/app'' (length demo_stub + 5)
   \<and> fst (run_appended_payload Pycclinux demo_env
             (demo_world (demo_stub @ [0x50, 0x59, 0x42, 0x4E, 0x45] @ [19, 0, 0, 0, 0, 0, 0, 0])))
        = Some NoPayload
   \<and> stderr (snd (run_appended_payload Pycclinux demo_env
             (demo_world (demo_stub @ [0x50, 0x59, 0x42, 0x4E, 0x45] @ [19, 0, 0, 0, 0, 0, 0, 0]))))
        = [''No embedded payload found in binary'']"
  using no_payload_reported [of demo_env "''/opt/app''"
      "demo_world (demo_stub @ [0x50, 0x59, 0x42, 0x4E, 0x45] @ [19, 0, 0, 0, 0, 0, 0, 0])"
      demo_stub "[0x50, 0x59, 0x42, 0x4E, 0x45]" "[19, 0, 0, 0, 0, 0, 0, 0]" Pycclinux]
  by (simp add: demo_env_def demo_world_def demo_stub_def sound_upto_def FOOTER_MAGIC_def
      eprint_def no_payload_msg_def)

text \<open>
  C10. A size field that cannot be read in full. When the magic is there and was read, but
  a read error leaves fewer than eight bytes for \<^verbatim>\<open>read_u64_le\<close>, the size is taken to be
  0: the launcher returns \<open>ZeroPayload\<close> with the line "Embedded payload size is zero",
  exactly as it does for a footer whose size field encodes 0 on a sound medium, and not
  \<open>FooterReadFailure\<close>, whose exit code differs.
\<close>

theorem short_size_field_is_zero_payload:
  assumes "proc_self_exe e = Some p" and "files w p = Some (pre @ FOOTER_MAGIC @ sz)"
    and "length sz = 8" and "length pre + 13 < 2 ^ 63"
    and "\<not> fseek_fails e SeekEnd" and "\<not> fseek_fails e SeekFooter"
    and "read_sound e p = Some k" and "length pre + 5 \<le> k" and "k < length pre + 13"
  shows "run_appended_payload v e w
           = (Some ZeroPayload,
              eprint ''Embedded payload size is zero''
                (w\<lparr>reads := reads w @ [(length pre, 5), (length pre + 5, k - (length pre + 5))]\<rparr>))
         \<and> fst (run_appended_payload v (e\<lparr>read_sound := (\<lambda>q. None)\<rparr>)
                 (w\<lparr>files := (files w)(p \<mapsto> pre @ FOOTER_MAGIC @ u64_le_bytes 0)\<rparr>))
             = Some ZeroPayload
         \<and> exit_code ZeroPayload = 8
         \<and> exit_code FooterReadFailure \<noteq> exit_code ZeroPayload"
proof -
  have lm: "length FOOTER_MAGIC = 5" by (simp add: FOOTER_MAGIC_def)
  let ?f1 = "\<lparr>content = pre @ FOOTER_MAGIC @ sz, sound = Some k, pos = length pre, rlog = []\<rparr>"
  let ?f2 = "\<lparr>content = pre @ FOOTER_MAGIC @ sz, sound = Some k, pos = length pre + 5,
             rlog = [(length pre, 5)]\<rparr>"
  have rd: "fread ?f1 5 = (FOOTER_MAGIC, ?f2)"
    using assms(8) lm by (simp add: fread_def readable_def Let_def)
  have rs: "fread ?f2 8 = (take (k - (length pre + 5)) sz,
              \<lparr>content = pre @ FOOTER_MAGIC @ sz, sound = Some k, pos = k,
               rlog = [(length pre, 5), (length pre + 5, k - (length pre + 5))]\<rparr>)"
    using assms(3,8,9) lm by (simp add: fread_def readable_def Let_def min_def)
  have short: "length (take (k - (length pre + 5)) sz) \<noteq> 8"
    using assms(3,9) by simp
  have a: "run_appended_payload v e w
           = (Some ZeroPayload,
              eprint ''Embedded payload size is zero''
                (w\<lparr>reads := reads w @ [(length pre, 5), (length pre + 5, k - (length pre + 5))]\<rparr>))"
    using reach_footer [OF assms(1,2) lm assms(3-6), of v] short
    by (simp add: assms(7) rd rs lm FOOTER_MAGIC_LEN_def read_u64_le_def Let_def fclose_r_def)
  let ?e = "e\<lparr>read_sound := (\<lambda>q. None)\<rparr>"
  let ?w = "w\<lparr>files := (files w)(p \<mapsto> pre @ FOOTER_MAGIC @ u64_le_bytes 0)\<rparr>"
  let ?g1 = "\<lparr>content = pre @ FOOTER_MAGIC @ u64_le_bytes 0, sound = None, pos = length pre, rlog = []\<rparr>"
  let ?g2 = "\<lparr>content = pre @ FOOTER_MAGIC @ u64_le_bytes 0, sound = None, pos = length pre + 5,
             rlog = [(length pre, 5)]\<rparr>"
  have rd0: "fread ?g1 5 = (FOOTER_MAGIC, ?g2)"
    using lm by (simp add: fread_def readable_def Let_def)
  have rs0: "fst (fread ?g2 8) = u64_le_bytes 0"
    using lm by (simp add: fread_def readable_def Let_def length_u64_le_bytes)
  have b: "fst (run_appended_payload v ?e ?w) = Some ZeroPayload"
    using reach_footer [of ?e p ?w pre FOOTER_MAGIC "u64_le_bytes 0" v] assms(1,4-6) lm
    by (simp add: length_u64_le_bytes rd0 rs0 FOOTER_MAGIC_LEN_def read_u64_le_def Let_def
        u64_of_le_bytes)
  from a b show ?thesis by simp
qed

theorem short_size_field_is_zero_payload_witness:
  "proc_self_exe bad_sector_env = Some ''/opt/app''
   \<and> files (demo_world (demo_stub @ FOOTER_MAGIC @ [19, 0, 0, 0, 0, 0, 0, 0])) ''/opt/app''
        = Some (demo_stub @ FOOTER_MAGIC @ [19, 0, 0, 0, 0, 0, 0, 0])
   \<and> read_sound bad_sector_env ''/opt/app'' = Some 24
   \<and> length demo_stub + 5 \<le> 24 \<and> 24 < length demo_stub + 13
   \<and> run_appended_payload Pycclinux bad_sector_env
         (demo_world (demo_stub @ FOOTER_MAGIC @ [19, 0, 0, 0, 0, 0, 0, 0]))
        = (Some ZeroPayload,
           (demo_world (demo_stub @ FOOTER_MAGIC @ [19, 0, 0, 0, 0, 0, 0, 0]))
             \<lparr>stderr := [''Embedded payload size is zero''], reads := [(16, 5), (21, 3)]\<rparr>)"
  using short_size_field_is_zero_payload [of bad_sector_env "''/opt/app''"
      "demo_world (demo_stub @ FOOTER_MAGIC @ [19, 0, 0, 0, 0, 0, 0, 0])" demo_stub
      "[19, 0, 0, 0, 0, 0, 0, 0]" 24 Pycclinux]
  by (simp add: bad_sector_env_def demo_env_def demo_world_def demo_stub_def eprint_def)

text \<open>
  A footer whose size is below \<open>2 ^ 63\<close> and larger than what precedes the footer is
  rejected: the subtraction gives a negative \<^verbatim>\<open>long\<close>.
\<close>

lemma corrupt_footer_rejected_below_2_63:
  assumes "proc_self_exe e = Some p" and "files w p = Some (pre @ FOOTER_MAGIC @ u64_le_bytes n)"
    and "length pre + 13 < 2 ^ 63"
    and "\<not> fseek_fails e SeekEnd" and "\<not> fseek_fails e SeekFooter"
    and "read_sound e p = None"
    and "unat n < 2 ^ 63" and "length pre < unat n"
  shows "fst (run_appended_payload v e w) = Some CorruptFooter"
proof -
  have lm: "length FOOTER_MAGIC = 5" by (simp add: FOOTER_MAGIC_def)
  let ?f1 = "\<lparr>content = pre @ FOOTER_MAGIC @ u64_le_bytes n, sound = None, pos = length pre, rlog = []\<rparr>"
  let ?f2 = "\<lparr>content = pre @ FOOTER_MAGIC @ u64_le_bytes n, sound = None, pos = length pre + 5,
             rlog = [(length pre, 5)]\<rparr>"
  have rd: "fread ?f1 5 = (FOOTER_MAGIC, ?f2)"
    using lm by (simp add: fread_def readable_def Let_def)
  have rs: "fst (fread ?f2 8) = u64_le_bytes n"
    using lm by (simp add: fread_def readable_def Let_def length_u64_le_bytes)
  have n0: "n \<noteq> 0"
    using assms(8) by auto
  have sn: "sint n = int (unat n)"
    using sint_long_of_nat [OF assms(7)] by simp
  have sp: "sint (word_of_nat (length pre) :: long) = int (length pre)"
    using assms(3) by (intro sint_long_of_nat) simp
  have "sint (word_of_nat (length pre) - n) = int (length pre) - int (unat n)"
    using sint_diff_nonneg [of "word_of_nat (length pre)" n] sn sp by simp
  moreover have "int (length pre) < int (unat n)"
    using assms(8) by (simp only: of_nat_less_iff)
  ultimately have neg: "sint (word_of_nat (length pre + 13) - word_of_nat FOOTER_LEN - n) < 0"
    by (simp add: FOOTER_LEN_def)
  show ?thesis
    using reach_footer [OF assms(1,2) lm length_u64_le_bytes assms(3-5), of v] n0 neg
    by (simp add: assms(6) rd rs lm FOOTER_MAGIC_LEN_def read_u64_le_def Let_def
        length_u64_le_bytes u64_of_le_bytes)
qed

text \<open>
  C5. Negative-span rejection for every 64-bit size. The launcher converts the size to
  \<^verbatim>\<open>long\<close> before it subtracts, so a size of \<open>2 ^ 63\<close> or more counts as negative and
  the start it computes is not negative. On the 29-byte binary \<open>huge_size_image\<close> the
  size field reads \<open>2 ^ 64 - 1\<close>, far more than the 16 bytes before the footer, and the
  start is computed as 17: the launcher does not return \<open>CorruptFooter\<close>. It copies the
  12 bytes from offset 17 to the end of the file (four of the magic and the eight of the
  size field) into the scratch file and hands them to the runtime. \<^verbatim>\<open>pycclinux.c\<close>
  ends with \<open>ExecFailure\<close>, \<^verbatim>\<open>bootandbuild.c\<close> with success. Every read stays inside the
  file.
\<close>

theorem huge_payload_size_not_rejected:
  "u64_of_le [0xFF, 0xFF, 0xFF, 0xFF, 0xFF, 0xFF, 0xFF, 0xFF] = - 1
   \<and> unat (- 1 :: u64) = 18446744073709551615
   \<and> run_appended_payload Pycclinux demo_env (demo_world huge_size_image)
        = (Some ExecFailure,
           (demo_world huge_size_image)
             \<lparr>stderr := [''Failed to execute embedded Python code''],
              reads := [(16, 5), (21, 8), (17, 12), (29, 0)]\<rparr>)
   \<and> fst (run_appended_payload Bootandbuild demo_env (demo_world huge_size_image)) = None
   \<and> files (snd (run_appended_payload Bootandbuild demo_env (demo_world huge_size_image)))
         ''/tmp/embedded_payload_42.pyc''
        = Some [0x59, 0x42, 0x4E, 0x44, 0xFF, 0xFF, 0xFF, 0xFF, 0xFF, 0xFF, 0xFF, 0xFF]"
  by (simp add: launcher_defs demo_defs huge_size_image_def u64_of_le_ff unat_minus_1_u64
      extract_loop.simps fun_eq_iff)

section \<open>The scratch file after execution\<close>

text \<open>What each variant does with the scratch file once the payload has been executed:
  \<^verbatim>\<open>pycclinux.c\<close> removes it when \<^verbatim>\<open>PyRun_SimpleString\<close> has returned, and the result
  of \<^verbatim>\<open>remove\<close> changes nothing else; when the call does not come back, the file stays;
  \<^verbatim>\<open>bootandbuild.c\<close> leaves every file as it is.\<close>

lemma pycclinux_removes_scratch:
  "\<not> remove_fails e t \<Longrightarrow> py_run_simple_string e w t = PyReturned r
     \<Longrightarrow> files (snd (execute_payload Pycclinux e w t)) t = None"
  by (simp add: execute_payload_def remove_file_def eprint_def)

lemma pycclinux_leaves_scratch_on_exit:
  "py_run_simple_string e w t = PyNoReturn x
     \<Longrightarrow> execute_payload Pycclinux e w t = (None, w\<lparr>ended := Some x\<rparr>)"
  by (simp add: execute_payload_def)

lemma pycclinux_ignores_remove_result:
  "fst (execute_payload Pycclinux (e\<lparr>remove_fails := rf\<rparr>) w t) = fst (execute_payload Pycclinux e w t)"
proof -
  have "py_run_simple_string (e\<lparr>remove_fails := rf\<rparr>) w t = py_run_simple_string e w t"
    by (simp add: py_run_simple_string_def cong: option.case_cong)
  then show ?thesis
    by (simp add: execute_payload_def split: py_result.splits)
qed

lemma bootandbuild_keeps_scratch:
  "files (snd (execute_payload Bootandbuild e w t)) = files w"
  by (simp add: execute_payload_def eprint_def split: option.splits module_outcome.splits)

text \<open>
  C6. The scratch file is deleted after execution. Launched from a well-formed image,
  \<^verbatim>\<open>bootandbuild.c\<close> reaches the execution step and returns with the scratch file
  \<^verbatim>\<open>/tmp/embedded_payload_42.pyc\<close> still holding the payload, when the execution
  succeeded and when it failed. \<^verbatim>\<open>pycclinux.c\<close> on the same inputs leaves no scratch
  file.
\<close>

theorem scratch_file_left_by_bootandbuild:
  "fst (run_appended_payload Bootandbuild demo_env (demo_world demo_image)) = None
   \<and> files (snd (run_appended_payload Bootandbuild demo_env (demo_world demo_image)))
         ''/tmp/embedded_payload_42.pyc'' = Some demo_pyc
   \<and> fst (run_appended_payload Bootandbuild failing_runtime_env (demo_world demo_image))
        = Some ExecFailure
   \<and> files (snd (run_appended_payload Bootandbuild failing_runtime_env (demo_world demo_image)))
         ''/tmp/embedded_payload_42.pyc'' = Some demo_pyc
   \<and> fst (run_appended_payload Pycclinux demo_env (demo_world demo_image)) = None
   \<and> files (snd (run_appended_payload Pycclinux demo_env (demo_world demo_image)))
         ''/tmp/embedded_payload_42.pyc'' = None
   \<and> fst (run_appended_payload Pycclinux failing_runtime_env (demo_world demo_image))
        = Some ExecFailure
   \<and> files (snd (run_appended_payload Pycclinux failing_runtime_env (demo_world demo_image)))
         ''/tmp/embedded_payload_42.pyc'' = None"
  by (simp add: launcher_defs demo_defs demo_image_def failing_runtime_env_def u64_of_le_19
      extract_loop.simps)

section \<open>The image the builder writes\<close>

text \<open>With both input files readable to their ends and a device that accepts every byte,
  \<^verbatim>\<open>append_payload_to_stub\<close> succeeds and the output is the stub, the payload, the magic
  and the payload's length in eight little-endian bytes.\<close>

lemma append_payload_layout:
  assumes "files w stub_exe = Some stub" and "files w payload_pyc = Some payload"
    and "read_sound e stub_exe = None" and "read_sound e payload_pyc = None"
    and "\<not> create_fails e out_exe" and "write_room e out_exe = None"
  shows "fst (append_payload_to_stub v e w stub_exe payload_pyc out_exe) = None
         \<and> files (snd (append_payload_to_stub v e w stub_exe payload_pyc out_exe)) out_exe
             = Some (stub @ payload @ FOOTER_MAGIC @ u64_le_bytes (word_of_nat (length payload)))"
proof -
  let ?fs = "\<lparr>content = stub, sound = None, pos = 0, rlog = []\<rparr>"
  let ?fp = "\<lparr>content = payload, sound = None, pos = 0, rlog = []\<rparr>"
  let ?fo = "\<lparr>written = [], room = None\<rparr>"
  obtain ok1 fs1 fo1 c1 where l1: "copy_loop ?fs ?fo 0 = (ok1, fs1, fo1, c1)"
    by (cases "copy_loop ?fs ?fo 0") auto
  have r1: "ok1" "written fo1 = stub" "room fo1 = None"
    using copy_loop_complete [of ?fo ?fs 0] l1
    by (simp_all add: room_for_def readable_def unread_def)
  obtain ok2 fp1 fo2 c2 where l2: "copy_loop ?fp fo1 0 = (ok2, fp1, fo2, c2)"
    by (cases "copy_loop ?fp fo1 0") auto
  have r2: "ok2" "written fo2 = stub @ payload" "room fo2 = None" "c2 = word_of_nat (length payload)"
    using copy_loop_complete [of fo1 ?fp 0] l2 r1
    by (simp_all add: room_for_def readable_def unread_def)
  have m: "fwrite fo2 FOOTER_MAGIC = (5, fo2\<lparr>written := stub @ payload @ FOOTER_MAGIC\<rparr>)"
    using r2 by (simp add: fwrite_def Let_def FOOTER_MAGIC_def)
  show ?thesis
    using assms l1 l2 r1 r2 m
    by (cases v)
       (simp_all add: append_payload_to_stub_def fopen_r_def fopen_w_def FOOTER_MAGIC_LEN_def
          write_u64_le_def fwrite_def fclose_w_def fclose_r_def chmod_exec_def Let_def)
qed

text \<open>
  C2. Every successful build writes stub, payload and footer. \<^verbatim>\<open>write_u64_le\<close> does not
  look at what its \<^verbatim>\<open>fwrite\<close> returns, and the copy loops take a read error for the end
  of the file. When the device accepts the 16 bytes of the stub, the 19 of the payload and
  the 5 of the magic and no more, both variants still report success (the last line printed
  is "Built out successfully", nothing goes to stderr) and the output ends with the magic,
  without a size field; launched, that file is taken for a binary without payload. When
  the running binary cannot be read beyond its first 8 bytes, the build reports success
  and the output starts with those 8 bytes only.
\<close>

theorem build_succeeds_without_size_field:
  "fst (builder_mode Pycclinux full_disk_env (demo_world demo_stub) ''hello.py'' ''out'') = None
   \<and> files (snd (builder_mode Pycclinux full_disk_env (demo_world demo_stub) ''hello.py'' ''out''))
         ''out'' = Some (demo_stub @ demo_pyc @ FOOTER_MAGIC)
   \<and> stdout (snd (builder_mode Pycclinux full_disk_env (demo_world demo_stub) ''hello.py'' ''out''))
        = [''[*] Compiling hello.py -> /tmp/temp_build_payload_42.pyc'',
           ''[*] Appending payload to stub and creating out'',
           ''[+] Built out successfully'']
   \<and> stderr (snd (builder_mode Pycclinux full_disk_env (demo_world demo_stub) ''hello.py'' ''out''))
        = []
   \<and> fst (builder_mode Bootandbuild full_disk_env (demo_world demo_stub) ''hello.py'' ''out'') = None
   \<and> files (snd (builder_mode Bootandbuild full_disk_env (demo_world demo_stub) ''hello.py'' ''out''))
         ''out'' = Some (demo_stub @ demo_pyc @ FOOTER_MAGIC)
   \<and> fst (run_appended_payload Pycclinux demo_env (demo_world (demo_stub @ demo_pyc @ FOOTER_MAGIC)))
        = Some NoPayload
   \<and> fst (builder_mode Pycclinux stub_read_error_env (demo_world demo_stub) ''hello.py'' ''out'') = None
   \<and> files (snd (builder_mode Pycclinux stub_read_error_env (demo_world demo_stub) ''hello.py'' ''out''))
         ''out'' = Some (take 8 demo_stub @ demo_pyc @ FOOTER_MAGIC @ [19, 0, 0, 0, 0, 0, 0, 0])"
  by (simp add: builder_defs launcher_defs demo_defs full_disk_env_def stub_read_error_env_def
      copy_loop.simps u64_le_bytes_19)

section \<open>The mode dispatcher and the exit codes\<close>

text \<open>The build flag with three further arguments: the build runs on the first two, the
  image is written and nothing is printed on stderr.\<close>

theorem extra_arguments_counterexample:
  "fst (main Pycclinux demo_env (demo_world demo_stub)
          [''app'', ''--build'', ''hello.py'', ''out'', ''extra'']) = None
   \<and> files (snd (main Pycclinux demo_env (demo_world demo_stub)
          [''app'', ''--build'', ''hello.py'', ''out'', ''extra''])) ''out'' = Some demo_image
   \<and> stderr (snd (main Pycclinux demo_env (demo_world demo_stub)
          [''app'', ''--build'', ''hello.py'', ''out'', ''extra''])) = []"
  by (simp add: main_def builder_defs demo_defs demo_image_def copy_loop.simps u64_le_bytes_19)

text \<open>
  C9, amended. When the first argument is the build flag, fewer than two further arguments
  give the usage error: exit status 1, the usage line on stderr and no other change of the
  world. With two or more further arguments the program is \<^verbatim>\<open>builder_mode\<close> on the first
  two; further ones are ignored.
\<close>

theorem build_flag_arity:
  assumes "2 \<le> length argv" and "argv ! 1 = ''--build''"
  shows "(length argv < 4 \<longrightarrow> main v e w argv = (Some UsageError, eprint (usage_line v argv) w))
         \<and> (4 \<le> length argv \<longrightarrow> main v e w argv = builder_mode v e w (argv ! 2) (argv ! 3))
         \<and> status (Some UsageError) = 1"
  using assms by (simp add: main_def status_def)

theorem build_flag_arity_witness:
  "2 \<le> length [''app'', ''--build'', ''hello.py''] \<and> [''app'', ''--build'', ''hello.py''] ! 1 = ''--build''
   \<and> length [''app'', ''--build'', ''hello.py''] < 4
   \<and> main Pycclinux demo_env (demo_world demo_stub) [''app'', ''--build'', ''hello.py'']
        = (Some UsageError,
           (demo_world demo_stub)\<lparr>stderr := [''Usage: app --build <script.py> <out_binary>'']\<rparr>)
   \<and> 4 \<le> length [''app'', ''--build'', ''hello.py'', ''out'', ''extra'']
   \<and> main Pycclinux demo_env (demo_world demo_stub) [''app'', ''--build'', ''hello.py'', ''out'', ''extra'']
        = builder_mode Pycclinux demo_env (demo_world demo_stub) ''hello.py'' ''out''"
  using build_flag_arity [of "[''app'', ''--build'', ''hello.py'']" Pycclinux demo_env "demo_world demo_stub"]
    build_flag_arity [of "[''app'', ''--build'', ''hello.py'', ''out'', ''extra'']" Pycclinux demo_env
      "demo_world demo_stub"]
  by (simp add: usage_line_def argv0_def out_word_def eprint_def demo_world_def)

text \<open>Two pairs of different failures with the same exit status: the usage error and a
  launch whose \<^verbatim>\<open>readlink\<close> fails (1), a script that does not compile and a launch
  whose binary cannot be opened (2).\<close>

theorem shared_exit_codes_counterexample:
  "fst (main Pycclinux demo_env (demo_world demo_stub) [''app'', ''--build'']) = Some UsageError
   \<and> fst (main Pycclinux no_self_env (demo_world demo_stub) [''app'']) = Some SelfPathFailure
   \<and> status (fst (main Pycclinux demo_env (demo_world demo_stub) [''app'', ''--build''])) = 1
   \<and> status (fst (main Pycclinux no_self_env (demo_world demo_stub) [''app''])) = 1
   \<and> fst (main Pycclinux demo_env (demo_world demo_stub) [''app'', ''--build'', ''bad.py'', ''out''])
        = Some CompileFailure
   \<and> fst (main Pycclinux moved_env (demo_world demo_stub) [''app'']) = Some OpenSelfFailure
   \<and> status (fst (main Pycclinux demo_env (demo_world demo_stub)
                      [''app'', ''--build'', ''bad.py'', ''out''])) = 2
   \<and> status (fst (main Pycclinux moved_env (demo_world demo_stub) [''app''])) = 2"
  by (simp add: main_def builder_defs launcher_defs demo_defs no_self_env_def moved_env_def
      status_def)

text \<open>Every failure the launcher returns is one of the thirteen of \<open>launcher_failures\<close>,
  and every failure of the builder one of the four of \<open>builder_failures\<close>.\<close>

lemma launcher_returns: "fst (run_appended_payload v e w) = Some x \<Longrightarrow> x \<in> launcher_failures"
  by (auto simp: run_appended_payload_def get_self_path_def execute_payload_def launcher_failures_def Let_def
      split: option.splits prod.splits if_splits variant.splits py_result.splits module_outcome.splits)

lemma builder_returns: "fst (builder_mode v e w s out) = Some y \<Longrightarrow> y \<in> builder_failures"
  by (auto simp: builder_mode_def get_self_path_def build_pyc_with_python_def append_payload_to_stub_def
      builder_failures_def Let_def
      split: option.splits prod.splits if_splits compile_outcome.splits)

text \<open>
  The launcher against the table \<open>failed_check\<close>. Up to the seek to the footer the two
  are compared directly; from the footer on, the file is split into what precedes the
  footer, the five bytes at \<open>n - 13\<close> and the eight at \<open>n - 8\<close>. When no check fails, the
  launcher's result is that of the execution step, on a world in which the scratch file
  exists.
\<close>

lemma early_checks:
  assumes sp: "proc_self_exe e = Some p" and fl: "files w p = Some bs" and size: "length bs < 2 ^ 63"
    and early: "fseek_fails e SeekEnd \<or> length bs < 13 \<or> fseek_fails e SeekFooter"
  shows "failed_check e w \<noteq> None \<and> fst (run_appended_payload v e w) = failed_check e w"
proof -
  have "sint (word_of_nat (length bs) :: long) = int (length bs)"
    using size by (intro sint_long_of_nat)
  then show ?thesis
    using sp fl early
    by (auto simp: failed_check_def run_appended_payload_def get_self_path_def fopen_r_def
        fseek_end_def ftell_def fseek_set_def FOOTER_LEN_def Let_def)
qed

lemma footer_parts:
  assumes "13 \<le> length bs"
  shows "bs = take (length bs - 13) bs @ take 5 (drop (length bs - 13) bs) @ drop (length bs - 8) bs"
proof -
  have "drop (length bs - 13) bs = take 5 (drop (length bs - 13) bs) @ drop 5 (drop (length bs - 13) bs)"
    by (rule append_take_drop_id [symmetric])
  moreover have "drop 5 (drop (length bs - 13) bs) = drop (length bs - 8) bs"
    using assms by (simp add: add.commute)
  ultimately show ?thesis
    by (metis append_take_drop_id)
qed

lemma late_checks:
  assumes sp: "proc_self_exe e = Some p" and fl: "files w p = Some (pre @ magic @ sz)"
    and len: "length magic = 5" "length sz = 8" and size: "length pre + 13 < 2 ^ 63"
    and seeks: "\<not> fseek_fails e SeekEnd" "\<not> fseek_fails e SeekFooter"
  shows "case failed_check e w of
           Some x \<Rightarrow> fst (run_appended_payload v e w) = Some x
         | None \<Rightarrow> (\<exists>w'. run_appended_payload v e w = execute_payload v e w' (scratch_name e)
                         \<and> files w' (scratch_name e) \<noteq> None)"
proof -
  let ?bs = "pre @ magic @ sz"
  let ?f1 = "\<lparr>content = ?bs, sound = read_sound e p, pos = length pre, rlog = []\<rparr>"
  let ?f2 = "\<lparr>content = ?bs, sound = read_sound e p, pos = length pre + 5, rlog = [(length pre, 5)]\<rparr>"
  note rf = reach_footer [OF sp fl len size seeks, of v]
  have d1: "take 5 (drop (length pre) ?bs) = magic"
    using len by simp
  have d2: "drop (length pre + 5) ?bs = sz"
    using len by simp
  have d3: "length ?bs = length pre + 13"
    using len by simp
  have d4: "length pre + 13 - 8 = length pre + 5" "length pre + 13 - 13 = length pre"
    by simp_all
  have fc: "failed_check e w =
     (if \<not> sound_upto e p (length pre + 5) then Some FooterReadFailure
      else if magic \<noteq> FOOTER_MAGIC then Some NoPayload
      else if \<not> sound_upto e p (length pre + 13) then Some ZeroPayload
      else if u64_of_le sz = 0 then Some ZeroPayload
      else if sint (word_of_nat (length pre + 13) - word_of_nat FOOTER_LEN - u64_of_le sz :: long) < 0
           then Some CorruptFooter
      else if fseek_fails e SeekPayload then Some PayloadSeekFailure
      else if create_fails e (scratch_name e) then Some ScratchCreateFailure
      else None)"
    unfolding failed_check_def Let_def sp fl option.case d3 d4 d1 d2 using seeks by simp
  show ?thesis
  proof (cases "\<not> sound_upto e p (length pre + 5)")
    case True
    obtain m f2 where eq: "fread ?f1 5 = (m, f2)"
      by (cases "fread ?f1 5") auto
    have "length (fst (fread ?f1 5)) \<noteq> 5"
      using True len by (auto simp: fread_def readable_def sound_upto_def Let_def split: option.splits)
    then have short: "length m \<noteq> 5"
      by (simp add: eq)
    have "failed_check e w = Some FooterReadFailure"
      using True by (simp add: fc)
    moreover have "fst (run_appended_payload v e w) = Some FooterReadFailure"
      using short by (simp add: rf eq FOOTER_MAGIC_LEN_def)
    ultimately show ?thesis
      by simp
  next
    case False
    then have rd: "fread ?f1 5 = (magic, ?f2)"
      using len by (auto simp: fread_def readable_def sound_upto_def Let_def split: option.splits)
    note rf2 = rf [unfolded FOOTER_MAGIC_LEN_def rd prod.case]
    show ?thesis
    proof (cases "magic \<noteq> FOOTER_MAGIC")
      case True
      have "failed_check e w = Some NoPayload"
        using False True by (simp add: fc)
      moreover have "fst (run_appended_payload v e w) = Some NoPayload"
        using True len by (simp add: rf2)
      ultimately show ?thesis
        by simp
    next
      case magic: False
      show ?thesis
      proof (cases "\<not> sound_upto e p (length pre + 13)")
        case True
        obtain f3 where eq: "fread ?f2 8 = (fst (fread ?f2 8), f3)"
          by (cases "fread ?f2 8") auto
        have short: "length (fst (fread ?f2 8)) \<noteq> 8"
          using True len by (auto simp: fread_def readable_def sound_upto_def Let_def split: option.splits)
        have "failed_check e w = Some ZeroPayload"
          using False magic True by (simp add: fc)
        moreover have "fst (run_appended_payload v e w) = Some ZeroPayload"
          using magic len short by (simp add: rf2 read_u64_le_def Let_def)
        ultimately show ?thesis
          by simp
      next
        case sound: False
        then have rs: "fst (fread ?f2 8) = sz"
          using len by (auto simp: fread_def readable_def sound_upto_def Let_def split: option.splits)
        obtain f3 where f3: "read_u64_le ?f2 = (u64_of_le sz, f3)"
          using rs len by (simp add: read_u64_le_def Let_def)
        let ?start = "word_of_nat (length pre + 13) - word_of_nat FOOTER_LEN - u64_of_le sz :: long"
        show ?thesis
        proof (cases "u64_of_le sz = 0")
          case True
          have "failed_check e w = Some ZeroPayload"
            using False magic sound True by (simp add: fc)
          moreover have "fst (run_appended_payload v e w) = Some ZeroPayload"
            using magic len f3 True by (simp add: rf2)
          ultimately show ?thesis
            by simp
        next
          case nz: False
          show ?thesis
          proof (cases "sint ?start < 0")
            case True
            have "failed_check e w = Some CorruptFooter"
              using False magic sound nz True by (simp add: fc)
            moreover have "fst (run_appended_payload v e w) = Some CorruptFooter"
              using magic len f3 nz True by (simp add: rf2 Let_def)
            ultimately show ?thesis
              by simp
          next
            case start: False
            show ?thesis
            proof (cases "fseek_fails e SeekPayload")
              case True
              have "failed_check e w = Some PayloadSeekFailure"
                using False magic sound nz start True by (simp add: fc)
              moreover have "fst (run_appended_payload v e w) = Some PayloadSeekFailure"
                using magic len f3 nz start True
                by (simp add: rf2 Let_def fseek_set_def)
              ultimately show ?thesis
                by simp
            next
              case seek: False
              show ?thesis
              proof (cases "create_fails e (scratch_name e)")
                case True
                have "failed_check e w = Some ScratchCreateFailure"
                  using False magic sound nz start seek True by (simp add: fc)
                moreover have "fst (run_appended_payload v e w) = Some ScratchCreateFailure"
                  using magic len f3 nz start seek True
                  by (simp add: rf2 Let_def fseek_set_def fopen_w_def)
                ultimately show ?thesis
                  by simp
              next
                case create: False
                have none: "failed_check e w = None"
                  using False magic sound nz start seek create by (simp add: fc)
                let ?f4 = "f3\<lparr>pos := nat (sint ?start)\<rparr>"
                let ?fp = "\<lparr>written = [], room = write_room e (scratch_name e)\<rparr>"
                obtain f5 fp1 where ex: "extract_loop ?f4 ?fp (u64_of_le sz) = (f5, fp1)"
                  by (cases "extract_loop ?f4 ?fp (u64_of_le sz)") auto
                have run: "run_appended_payload v e w
                       = execute_payload v e (fclose_r f5 (fclose_w (scratch_name e) fp1 w)) (scratch_name e)"
                  using magic len f3 ex nz start seek create
                  by (simp add: rf2 Let_def fseek_set_def fopen_w_def)
                have "files (fclose_r f5 (fclose_w (scratch_name e) fp1 w)) (scratch_name e) \<noteq> None"
                  by (simp add: fclose_r_def fclose_w_def)
                with run have "\<exists>w'. run_appended_payload v e w = execute_payload v e w' (scratch_name e)
                         \<and> files w' (scratch_name e) \<noteq> None"
                  by blast
                then show ?thesis
                  by (simp add: none)
              qed
            qed
          qed
        qed
      qed
    qed
  qed
qed

lemma checks_followed:
  assumes "self_size e w < 2 ^ 63"
  shows "case failed_check e w of
           Some x \<Rightarrow> fst (run_appended_payload v e w) = Some x
         | None \<Rightarrow> (\<exists>w'. run_appended_payload v e w = execute_payload v e w' (scratch_name e)
                         \<and> files w' (scratch_name e) \<noteq> None)"
proof (cases "proc_self_exe e")
  case None
  then show ?thesis
    by (simp add: failed_check_def run_appended_payload_def get_self_path_def)
next
  case (Some p)
  show ?thesis
  proof (cases "files w p")
    case None
    then show ?thesis
      using Some by (simp add: failed_check_def run_appended_payload_def get_self_path_def fopen_r_def)
  next
    case (Some bs)
    have size: "length bs < 2 ^ 63"
      using assms \<open>proc_self_exe e = Some p\<close> Some by (simp add: self_size_def)
    show ?thesis
    proof (cases "fseek_fails e SeekEnd \<or> length bs < 13 \<or> fseek_fails e SeekFooter")
      case True
      then show ?thesis
        using early_checks [OF \<open>proc_self_exe e = Some p\<close> Some size, of v] by auto
    next
      case False
      then have parts: "bs = take (length bs - 13) bs @ take 5 (drop (length bs - 13) bs) @ drop (length bs - 8) bs"
        by (intro footer_parts) simp
      have fl: "files w p = Some (take (length bs - 13) bs @ take 5 (drop (length bs - 13) bs) @ drop (length bs - 8) bs)"
        using Some parts by simp
      show ?thesis
        using False size
        by (intro late_checks [OF \<open>proc_self_exe e = Some p\<close> fl]) simp_all
    qed
  qed
qed

text \<open>The execution step: what each variant can return from it, and what becomes of a
  scratch file that cannot be read back.\<close>

lemma pycclinux_execution_results:
  "fst (execute_payload Pycclinux e w t) = None \<or> fst (execute_payload Pycclinux e w t) = Some ExecFailure"
  by (simp add: execute_payload_def split: py_result.splits)

lemma pycclinux_unreadable_scratch:
  "text_intact t \<Longrightarrow> scratch_unreadable e \<Longrightarrow> fst (execute_payload Pycclinux e w t) = Some ExecFailure"
  by (simp add: execute_payload_def py_run_simple_string_def)

lemma bootandbuild_execution_results:
  "files w t \<noteq> None \<Longrightarrow>
     fst (execute_payload Bootandbuild e w t)
       = (if scratch_unreadable e then Some ScratchReopenFailure
          else case py_module_exec e of
                 ModuleLoaded \<Rightarrow> None | ModuleFailed \<Rightarrow> Some ExecFailure | ModuleNoReturn x \<Rightarrow> None)"
  by (auto simp: execute_payload_def fopen_r_def split: module_outcome.splits)

lemma pycclinux_never_reopens:
  "fst (run_appended_payload Pycclinux e w) \<noteq> Some ScratchReopenFailure"
  by (auto simp: run_appended_payload_def get_self_path_def execute_payload_def Let_def
      split: option.splits prod.splits if_splits py_result.splits)

text \<open>Once the script is compiled, the builder can only fail in
  \<^verbatim>\<open>append_payload_to_stub\<close>.\<close>

lemma builder_append_failure:
  "proc_self_exe e \<noteq> None \<Longrightarrow> py_compile e s = Compiled bs
     \<Longrightarrow> fst (builder_mode v e w s out) = Some y \<Longrightarrow> y = AppendFailure"
  by (auto simp: builder_mode_def get_self_path_def build_pyc_with_python_def append_payload_to_stub_def
      Let_def split: option.splits prod.splits if_splits)

text \<open>
  C8, amended. The exit code of the launcher is that of the first check that fails, in
  this order (\<open>failed_check\<close>): the path of the running binary is not found 1; the
  binary cannot be opened 2; the seek to its end fails 3; it has fewer than 13 bytes 4;
  the seek to the footer fails 5; the five bytes of the magic cannot be read in full 6;
  they are not \<^verbatim>\<open>PYBND\<close> 7; the size field cannot be read in full, or it is zero 8 (two
  conditions, one code); the start computed from the size is negative 9; the seek to the
  payload fails 10; the scratch file cannot be created 11. When every check passes, the
  payload goes to the runtime and, when the runtime comes back, \<^verbatim>\<open>pycclinux.c\<close> returns 0
  or 13 and never 12 (with an intact Python text, a scratch file that cannot be read back
  gives 13, the code of a failed execution); \<^verbatim>\<open>bootandbuild.c\<close> returns 12 when the
  scratch file cannot be opened again and else 0 or 13. The thirteen failures of the launcher have the codes 1 to 13, each its
  own. The builder returns 1 when the path of the running binary is not found, 1 when the
  compiler cannot be set up, 2 when the compilation raises, and 1 when appending fails;
  \<^verbatim>\<open>main\<close> returns 1 for the usage error, and else the code of the builder or of the
  launcher unchanged. So the failures of the builder and the usage error have the codes 1
  and 2 only, which they share with each other and with the first two failures of the
  launcher. The running binary is taken to have fewer than \<open>2 ^ 63\<close> bytes.
\<close>

theorem exit_code_by_first_failed_check:
  assumes "self_size e w < 2 ^ 63"
  shows "(\<forall>x. failed_check e w = Some x \<longrightarrow> fst (run_appended_payload v e w) = Some x)
    \<and> (failed_check e w = None \<longrightarrow>
         (fst (run_appended_payload Pycclinux e w) = None
            \<or> fst (run_appended_payload Pycclinux e w) = Some ExecFailure)
         \<and> (text_intact (scratch_name e) \<and> scratch_unreadable e
              \<longrightarrow> fst (run_appended_payload Pycclinux e w) = Some ExecFailure)
         \<and> fst (run_appended_payload Bootandbuild e w)
             = (if scratch_unreadable e then Some ScratchReopenFailure
                else case py_module_exec e of
                       ModuleLoaded \<Rightarrow> None | ModuleFailed \<Rightarrow> Some ExecFailure
                     | ModuleNoReturn x \<Rightarrow> None))
    \<and> fst (run_appended_payload Pycclinux e w) \<noteq> Some ScratchReopenFailure
    \<and> map exit_code
          [SelfPathFailure, OpenSelfFailure, SeekEndFailure, TooSmall, FooterSeekFailure,
           FooterReadFailure, NoPayload, ZeroPayload, CorruptFooter, PayloadSeekFailure,
           ScratchCreateFailure, ScratchReopenFailure, ExecFailure]
        = [1, 2, 3, 4, 5, 6, 7, 8, 9, 10, 11, 12, 13]
    \<and> (\<forall>x. fst (run_appended_payload v e w) = Some x \<longrightarrow> x \<in> launcher_failures)
    \<and> inj_on exit_code launcher_failures
    \<and> (proc_self_exe e = None \<longrightarrow> fst (builder_mode v e w s out) = Some SelfPathFailure)
    \<and> (proc_self_exe e \<noteq> None \<and> py_compile e s = CompileSetupFailed
          \<longrightarrow> fst (builder_mode v e w s out) = Some CompileSetupFailure)
    \<and> (proc_self_exe e \<noteq> None \<and> py_compile e s = CompileRaised
          \<longrightarrow> fst (builder_mode v e w s out) = Some CompileFailure)
    \<and> (\<forall>bs y. proc_self_exe e \<noteq> None \<and> py_compile e s = Compiled bs
                 \<and> fst (builder_mode v e w s out) = Some y \<longrightarrow> y = AppendFailure)
    \<and> (\<forall>y. fst (builder_mode v e w s out) = Some y \<longrightarrow> y \<in> builder_failures)
    \<and> (2 \<le> length argv \<and> argv ! 1 = ''--build'' \<and> length argv < 4
          \<longrightarrow> fst (main v e w argv) = Some UsageError)
    \<and> (2 \<le> length argv \<and> argv ! 1 = ''--build'' \<and> 4 \<le> length argv
          \<longrightarrow> main v e w argv = builder_mode v e w (argv ! 2) (argv ! 3))
    \<and> (\<not> (2 \<le> length argv \<and> argv ! 1 = ''--build'')
          \<longrightarrow> fst (main v e w argv) = fst (run_appended_payload v e w))
    \<and> map exit_code [SelfPathFailure, CompileSetupFailure, CompileFailure, AppendFailure, UsageError]
        = [1, 1, 2, 1, 1]"
proof -
  have c1: "\<forall>x. failed_check e w = Some x \<longrightarrow> fst (run_appended_payload v e w) = Some x"
    using checks_followed [OF assms, of v] by auto
  have c2: "failed_check e w = None \<longrightarrow>
         (fst (run_appended_payload Pycclinux e w) = None
            \<or> fst (run_appended_payload Pycclinux e w) = Some ExecFailure)
         \<and> (text_intact (scratch_name e) \<and> scratch_unreadable e
              \<longrightarrow> fst (run_appended_payload Pycclinux e w) = Some ExecFailure)
         \<and> fst (run_appended_payload Bootandbuild e w)
             = (if scratch_unreadable e then Some ScratchReopenFailure
                else case py_module_exec e of
                       ModuleLoaded \<Rightarrow> None | ModuleFailed \<Rightarrow> Some ExecFailure
                     | ModuleNoReturn x \<Rightarrow> None)"
  proof
    assume none: "failed_check e w = None"
    obtain w1 where w1: "run_appended_payload Pycclinux e w = execute_payload Pycclinux e w1 (scratch_name e)"
      using checks_followed [OF assms, of Pycclinux] none by auto
    obtain w2 where w2: "run_appended_payload Bootandbuild e w = execute_payload Bootandbuild e w2 (scratch_name e)"
      and f2: "files w2 (scratch_name e) \<noteq> None"
      using checks_followed [OF assms, of Bootandbuild] none by auto
    show "(fst (run_appended_payload Pycclinux e w) = None
            \<or> fst (run_appended_payload Pycclinux e w) = Some ExecFailure)
         \<and> (text_intact (scratch_name e) \<and> scratch_unreadable e
              \<longrightarrow> fst (run_appended_payload Pycclinux e w) = Some ExecFailure)
         \<and> fst (run_appended_payload Bootandbuild e w)
             = (if scratch_unreadable e then Some ScratchReopenFailure
                else case py_module_exec e of
                       ModuleLoaded \<Rightarrow> None | ModuleFailed \<Rightarrow> Some ExecFailure
                     | ModuleNoReturn x \<Rightarrow> None)"
      unfolding w1 w2
      using pycclinux_execution_results [of e w1 "scratch_name e"]
        pycclinux_unreadable_scratch [of "scratch_name e" e w1]
        bootandbuild_execution_results [OF f2, of e]
      by blast
  qed
  have c3: "fst (run_appended_payload Pycclinux e w) \<noteq> Some ScratchReopenFailure"
    by (rule pycclinux_never_reopens)
  have c4: "map exit_code
          [SelfPathFailure, OpenSelfFailure, SeekEndFailure, TooSmall, FooterSeekFailure,
           FooterReadFailure, NoPayload, ZeroPayload, CorruptFooter, PayloadSeekFailure,
           ScratchCreateFailure, ScratchReopenFailure, ExecFailure]
        = [1, 2, 3, 4, 5, 6, 7, 8, 9, 10, 11, 12, 13]"
    by simp
  have c5: "\<forall>x. fst (run_appended_payload v e w) = Some x \<longrightarrow> x \<in> launcher_failures"
    using launcher_returns by blast
  have c6: "inj_on exit_code launcher_failures"
    by (simp add: launcher_failures_def)
  have c7: "proc_self_exe e = None \<longrightarrow> fst (builder_mode v e w s out) = Some SelfPathFailure"
    by (simp add: builder_mode_def get_self_path_def)
  have c8: "proc_self_exe e \<noteq> None \<and> py_compile e s = CompileSetupFailed
          \<longrightarrow> fst (builder_mode v e w s out) = Some CompileSetupFailure"
    by (auto simp: builder_mode_def get_self_path_def build_pyc_with_python_def Let_def)
  have c9: "proc_self_exe e \<noteq> None \<and> py_compile e s = CompileRaised
          \<longrightarrow> fst (builder_mode v e w s out) = Some CompileFailure"
    by (auto simp: builder_mode_def get_self_path_def build_pyc_with_python_def Let_def)
  have c10: "\<forall>bs y. proc_self_exe e \<noteq> None \<and> py_compile e s = Compiled bs
                 \<and> fst (builder_mode v e w s out) = Some y \<longrightarrow> y = AppendFailure"
    using builder_append_failure by blast
  have c15: "\<forall>y. fst (builder_mode v e w s out) = Some y \<longrightarrow> y \<in> builder_failures"
    using builder_returns by blast
  have c11: "2 \<le> length argv \<and> argv ! 1 = ''--build'' \<and> length argv < 4
          \<longrightarrow> fst (main v e w argv) = Some UsageError"
    by (simp add: main_def)
  have c12: "2 \<le> length argv \<and> argv ! 1 = ''--build'' \<and> 4 \<le> length argv
          \<longrightarrow> main v e w argv = builder_mode v e w (argv ! 2) (argv ! 3)"
    by (simp add: main_def)
  have c13: "\<not> (2 \<le> length argv \<and> argv ! 1 = ''--build'')
          \<longrightarrow> fst (main v e w argv) = fst (run_appended_payload v e w)"
    by (auto simp: main_def split: prod.splits option.splits)
  have c14: "map exit_code [SelfPathFailure, CompileSetupFailure, CompileFailure, AppendFailure, UsageError]
        = [1, 1, 2, 1, 1]"
    by simp
  show ?thesis
    by (intro conjI; fact)
qed

theorem exit_code_by_first_failed_check_witness:
  "self_size demo_env (demo_world demo_stub) < 2 ^ 63
   \<and> failed_check demo_env (demo_world demo_stub) = Some NoPayload
   \<and> fst (run_appended_payload Pycclinux demo_env (demo_world demo_stub)) = Some NoPayload
   \<and> py_compile demo_env ''bad.py'' = CompileRaised
   \<and> fst (builder_mode Pycclinux demo_env (demo_world demo_stub) ''bad.py'' ''out'') = Some CompileFailure
   \<and> fst (main Pycclinux demo_env (demo_world demo_stub) [''app'', ''--build'']) = Some UsageError
   \<and> self_size unreadable_scratch_env (demo_world demo_image) < 2 ^ 63
   \<and> failed_check unreadable_scratch_env (demo_world demo_image) = None
   \<and> text_intact (scratch_name unreadable_scratch_env)
   \<and> scratch_unreadable unreadable_scratch_env
   \<and> fst (run_appended_payload Pycclinux unreadable_scratch_env (demo_world demo_image))
        = Some ExecFailure
   \<and> fst (run_appended_payload Bootandbuild unreadable_scratch_env (demo_world demo_image))
        = Some ScratchReopenFailure"
  using exit_code_by_first_failed_check [of demo_env "demo_world demo_stub" Pycclinux "''bad.py''"
      "''out''" "[''app'', ''--build'']"]
    exit_code_by_first_failed_check [of unreadable_scratch_env "demo_world demo_image" Pycclinux
      "''bad.py''" "''out''" "[''app'', ''--build'']"]
  by (simp add: self_size_def failed_check_def sound_upto_def scratch_name_def tmp_dir_def demo_defs
      demo_image_def unreadable_scratch_env_def FOOTER_MAGIC_def FOOTER_LEN_def u64_of_le_19)

section \<open>The header of the payload\<close>









text \<open>A payload that ends with \<^verbatim>\<open>sys.exit(5)\<close>: the process exits with 5, the code of
  a failed seek to the footer, and the scratch file stays. A scratch file that cannot be
  read back: 13 in \<^verbatim>\<open>pycclinux.c\<close>, as for an execution that failed, 12 in
  \<^verbatim>\<open>bootandbuild.c\<close>.\<close>

lemma payload_exit_status:
  "run_appended_payload Pycclinux exiting_payload_env (demo_world demo_image)
     = (None, (extracted_world demo_pyc)\<lparr>reads := [(35, 5), (40, 8), (16, 19)],
                                        ended := Some (ExitedWith 5)\<rparr>)
   \<and> process_end (run_appended_payload Pycclinux exiting_payload_env (demo_world demo_image))
       = ExitedWith 5
   \<and> files (snd (run_appended_payload Pycclinux exiting_payload_env (demo_world demo_image)))
         ''/tmp/embedded_payload_42.pyc'' = Some demo_pyc
   \<and> exit_code FooterSeekFailure = 5"
  by (simp add: launcher_defs demo_defs demo_image_def exiting_payload_env_def u64_of_le_19
      extract_loop.simps extracted_world_def process_end_def)

lemma unreadable_scratch_exit_codes:
  "fst (run_appended_payload Pycclinux unreadable_scratch_env (demo_world demo_image)) = Some ExecFailure
   \<and> fst (run_appended_payload Bootandbuild unreadable_scratch_env (demo_world demo_image))
       = Some ScratchReopenFailure
   \<and> fst (run_appended_payload Pycclinux failing_runtime_env (demo_world demo_image)) = Some ExecFailure"
  by (simp add: launcher_defs demo_defs demo_image_def unreadable_scratch_env_def
      failing_runtime_env_def u64_of_le_19 extract_loop.simps)

text \<open>A name of more than 1557 characters does not fit: the runtime is given the first
  2047 characters of the text, which is another text, and the launcher fails when the
  runtime rejects it.\<close>

lemma long_name_runs_other_text:
  "1557 < length t \<Longrightarrow> py_run_simple_string e w t = py_run_text e (take 2047 (py_text t))
     \<and> take 2047 (py_text t) \<noteq> py_text t"
  by (simp add: py_run_simple_string_def text_intact_def length_py_text py_code_str_def)

lemma cut_text_fails:
  "1557 < length t \<Longrightarrow> py_run_text e (take 2047 (py_text t)) = PyReturned (- 1)
     \<Longrightarrow> fst (execute_payload Pycclinux e w t) = Some ExecFailure"
  by (simp add: execute_payload_def long_name_runs_other_text)

end
